theory Spec2Isabelle
  imports Complex_Main
begin

section \<open>Values and documents\<close>

text \<open>
  The service keeps five Mongoose collections. Documents are records, collections are
  lists in insertion order, and every route handler is a function from the database (and
  the request) to a response and the database after the request.

  JavaScript numbers are modelled as rationals, with the rational \<open>+\<close>, \<open>-\<close> and
  \<open>min\<close> standing for the operations of the runtime on them; where the source computes
  with the raw value of a body key, the value is a number or a string (see
  \<open>amount_val\<close>). ObjectIds are natural numbers; a request carries them as strings, which
  \<open>isValidObjectId\<close> accepts in the 24-hex-digit form and \<open>to_oid\<close> casts. Dates are
  integers (milliseconds). The timestamps added by the schemas are left out.
\<close>

type_synonym oid = nat
type_synonym date = int

definition is_hex :: "char \<Rightarrow> bool" where
  "is_hex c = (c \<in> set ''0123456789abcdefABCDEF'')"

definition hex_val :: "char \<Rightarrow> nat" where
  "hex_val c =
     (case map_of (zip ''0123456789abcdefABCDEF''
        [0, 1, 2, 3, 4, 5, 6, 7, 8, 9, 10, 11, 12, 13, 14, 15, 10, 11, 12, 13, 14, 15]) c of
        None \<Rightarrow> 0 | Some v \<Rightarrow> v)"

definition isValidObjectId :: "string \<Rightarrow> bool" where
  "isValidObjectId s = (length s = 24 \<and> list_all is_hex s)"

definition to_oid :: "string \<Rightarrow> oid" where
  "to_oid s = foldl (\<lambda>n c. 16 * n + hex_val c) 0 s"

definition is_space :: "char \<Rightarrow> bool" where
  "is_space c = (c \<in> set [CHR '' '', CHR 0x09, CHR 0x0A, CHR 0x0B, CHR 0x0C, CHR 0x0D])"

text \<open>
  Strings are byte strings (UTF-8); \<open>trim\<close> removes the ASCII blanks at both ends.
\<close>

definition trim :: "string \<Rightarrow> string" where
  "trim s = rev (dropWhile is_space (rev (dropWhile is_space s)))"

record category =
  cat_id :: oid
  cat_name :: string
  cat_user_id :: oid
  cat_is_default :: bool
  cat_color :: string
  cat_icon :: string

record credit_card =
  cc_id :: oid
  cc_user_id :: oid
  cc_bank_name :: string
  cc_card_number :: string
  cc_limit_amount :: "rat option"
  cc_due_date :: rat
  cc_is_active :: bool

record borrowed_money =
  bm_id :: oid
  bm_user_id :: oid
  bm_name :: string
  bm_phone :: "string option"
  bm_amount :: rat
  bm_type :: string
  bm_status :: string
  bm_note :: "string option"
  bm_repaid_amount :: rat

record payment =
  pay_id :: oid
  pay_user_id :: oid
  pay_type :: string
  pay_reference_id :: oid
  pay_amount :: rat
  pay_payment_date :: date
  pay_note :: "string option"
  pay_payment_method :: string

record expense =
  exp_id :: oid
  exp_user_id :: oid
  exp_amount :: rat
  exp_category_id :: oid
  exp_payment_mode :: string
  exp_credit_card_id :: "oid option"
  exp_borrowed_id :: "oid option"
  exp_date :: date
  exp_note :: "string option"
  exp_is_recurring :: bool
  exp_recurring_frequency :: "string option"

record db =
  categories :: "category list"
  credit_cards :: "credit_card list"
  borrowed_moneys :: "borrowed_money list"
  payments :: "payment list"
  expenses :: "expense list"
  next_id :: oid

definition empty_db :: db where
  "empty_db = \<lparr>categories = [], credit_cards = [], borrowed_moneys = [], payments = [],
     expenses = [], next_id = 1\<rparr>"

text \<open>
  \<open>findOne\<close> is \<open>find\<close>: the first document that matches. \<open>findOneAndUpdate\<close> and
  \<open>findByIdAndUpdate\<close> change the first match only, \<open>findByIdAndDelete\<close> removes it.
\<close>

fun update_first :: "('a \<Rightarrow> bool) \<Rightarrow> ('a \<Rightarrow> 'a) \<Rightarrow> 'a list \<Rightarrow> 'a list" where
  "update_first P f [] = []"
| "update_first P f (x # xs) = (if P x then f x # xs else x # update_first P f xs)"

fun delete_first :: "('a \<Rightarrow> bool) \<Rightarrow> 'a list \<Rightarrow> 'a list" where
  "delete_first P [] = []"
| "delete_first P (x # xs) = (if P x then xs else x # delete_first P xs)"

text \<open>
  What a handler sends: the status and the keys of the JSON body the properties read.
  Messages are the literal text of the source; values interpolated into a message and
  quotation marks inside it are left out.
\<close>

record response =
  res_status :: nat
  res_message :: string
  res_field :: "string option"
  res_remaining_amount :: "rat option"

definition reply :: "nat \<Rightarrow> string \<Rightarrow> response" where
  "reply c m = \<lparr>res_status = c, res_message = m, res_field = None, res_remaining_amount = None\<rparr>"

definition reply_field :: "nat \<Rightarrow> string \<Rightarrow> string \<Rightarrow> response" where
  "reply_field c m f =
     \<lparr>res_status = c, res_message = m, res_field = Some f, res_remaining_amount = None\<rparr>"

text \<open>
  A body key that holds an id: missing, \<open>null\<close>, or a string. \<open>truthy_id\<close> is the
  JavaScript truth value, \<open>blank_id\<close> is \<open>x.trim() === ''\<close> on a string.
\<close>

datatype idval = Undefined | Null | Str string

definition truthy_id :: "idval \<Rightarrow> bool" where
  "truthy_id v = (case v of Str x \<Rightarrow> x \<noteq> [] | _ \<Rightarrow> False)"

definition blank_id :: "idval \<Rightarrow> bool" where
  "blank_id v = (case v of Str x \<Rightarrow> trim x = [] | _ \<Rightarrow> False)"

definition valid_id :: "idval \<Rightarrow> bool" where
  "valid_id v = (case v of Str x \<Rightarrow> isValidObjectId x | _ \<Rightarrow> False)"

definition id_of :: "idval \<Rightarrow> oid" where
  "id_of v = (case v of Str x \<Rightarrow> to_oid x | _ \<Rightarrow> 0)"

text \<open>
  The \<open>amount\<close> key of a payment or repayment body is a JSON number or a JSON string;
  \<open>None\<close> is a missing key. The handlers compute with this raw value. What JavaScript
  makes of a string belongs to the language runtime, which is a parameter:
  \<open>to_number rt t\<close> is \<open>Number(t)\<close>, with \<open>None\<close> for \<open>NaN\<close>, and
  \<open>to_string rt x\<close> is \<open>String(x)\<close>.
\<close>

datatype amount_val = Number rat | Text string

record runtime =
  to_number :: "string \<Rightarrow> rat option"
  to_string :: "rat \<Rightarrow> string"

text \<open>\<open>!v\<close> is \<open>\<not> truthy_amount v\<close>: zero and the empty string are falsy.\<close>

definition truthy_amount :: "amount_val \<Rightarrow> bool" where
  "truthy_amount v = (case v of Number x \<Rightarrow> x \<noteq> 0 | Text t \<Rightarrow> t \<noteq> [])"

text \<open>
  The numeric value JavaScript gives an operand of a comparison or of \<open>Math.min\<close>;
  \<open>None\<close> is \<open>NaN\<close>, which \<open>undefined\<close> becomes too.
\<close>

definition num_of :: "runtime \<Rightarrow> amount_val option \<Rightarrow> rat option" where
  "num_of rt v =
     (case v of None \<Rightarrow> None | Some (Number x) \<Rightarrow> Some x | Some (Text t) \<Rightarrow> to_number rt t)"

text \<open>
  Mongoose's cast of a value to a \<open>Number\<close> path: the empty string becomes \<open>null\<close>,
  another string goes through \<open>Number\<close>, and \<open>NaN\<close> is refused. \<open>None\<close> is a value
  that is missing, \<open>null\<close> or refused.
\<close>

definition cast_number :: "runtime \<Rightarrow> amount_val option \<Rightarrow> rat option" where
  "cast_number rt v =
     (case v of None \<Rightarrow> None | Some (Number x) \<Rightarrow> Some x
      | Some (Text t) \<Rightarrow> (if t = [] then None else to_number rt t))"

text \<open>
  \<open>x + v\<close> for a number \<open>x\<close>: the sum with a number, the concatenation of
  \<open>String(x)\<close> with a string, \<open>NaN\<close> (\<open>None\<close>) with \<open>undefined\<close>.
\<close>

definition js_plus :: "runtime \<Rightarrow> rat \<Rightarrow> amount_val option \<Rightarrow> amount_val option" where
  "js_plus rt x v =
     (case v of None \<Rightarrow> None | Some (Number a) \<Rightarrow> Some (Number (x + a))
      | Some (Text t) \<Rightarrow> Some (Text (to_string rt x @ t)))"

text \<open>
  \<open>Math.min(v, p)\<close>, \<open>v <= p\<close>, \<open>v > p\<close> and \<open>v >= p\<close> for a number \<open>p\<close>: the
  operand \<open>v\<close> is converted to a number, and a comparison with \<open>NaN\<close> is false.
\<close>

definition math_min :: "runtime \<Rightarrow> amount_val option \<Rightarrow> rat \<Rightarrow> rat option" where
  "math_min rt v p = (case num_of rt v of None \<Rightarrow> None | Some y \<Rightarrow> Some (min y p))"

definition js_le :: "runtime \<Rightarrow> amount_val option \<Rightarrow> rat \<Rightarrow> bool" where
  "js_le rt v p = (case num_of rt v of None \<Rightarrow> False | Some y \<Rightarrow> y \<le> p)"

definition js_gt :: "runtime \<Rightarrow> amount_val option \<Rightarrow> rat \<Rightarrow> bool" where
  "js_gt rt v p = (case num_of rt v of None \<Rightarrow> False | Some y \<Rightarrow> p < y)"

definition js_ge :: "runtime \<Rightarrow> amount_val option \<Rightarrow> rat \<Rightarrow> bool" where
  "js_ge rt v p = (case num_of rt v of None \<Rightarrow> False | Some y \<Rightarrow> p \<le> y)"

text \<open>\<open>!x\<close> on an optional string.\<close>

definition falsy_str :: "string option \<Rightarrow> bool" where
  "falsy_str x = (x = None \<or> x = Some [])"

definition too_long :: "nat \<Rightarrow> string option \<Rightarrow> bool" where
  "too_long n x = (case x of None \<Rightarrow> False | Some t \<Rightarrow> n < length t)"

section \<open>BorrowedMoney: schema, save hook and routes\<close>

text \<open>The virtual \<open>remaining_amount\<close>.\<close>

definition remaining_amount :: "borrowed_money \<Rightarrow> rat" where
  "remaining_amount b = bm_amount b - bm_repaid_amount b"

text \<open>
  \<open>borrowedMoneySchema.pre('save')\<close>: clamp the repaid amount, then derive the status.
  Mongoose runs it on \<open>save()\<close> only, not on \<open>findOneAndUpdate\<close> or
  \<open>findByIdAndUpdate\<close>.
\<close>

definition pre_save :: "borrowed_money \<Rightarrow> borrowed_money" where
  "pre_save b =
     (let b1 = (if bm_amount b < bm_repaid_amount b
                then b\<lparr>bm_repaid_amount := bm_amount b\<rparr> else b)
      in if bm_repaid_amount b1 = 0 then b1\<lparr>bm_status := ''pending''\<rparr>
         else if bm_amount b1 \<le> bm_repaid_amount b1 then b1\<lparr>bm_status := ''repaid''\<rparr>
         else b1\<lparr>bm_status := ''partial''\<rparr>)"

text \<open>The schema's validators, on the values after the \<open>trim\<close> setters.\<close>

definition bm_types :: "string list" where
  "bm_types = [''borrowed'', ''lent'']"

definition bm_statuses :: "string list" where
  "bm_statuses = [''pending'', ''repaid'', ''partial'']"

definition bm_valid :: "borrowed_money \<Rightarrow> bool" where
  "bm_valid b =
     (bm_name b \<noteq> [] \<and> length (bm_name b) \<le> 100 \<and> \<not> too_long 20 (bm_phone b)
      \<and> 1 / 100 \<le> bm_amount b \<and> bm_type b \<in> set bm_types
      \<and> bm_status b \<in> set bm_statuses \<and> \<not> too_long 500 (bm_note b)
      \<and> 0 \<le> bm_repaid_amount b)"

record borrowed_body =
  bb_name :: "string option"
  bb_phone :: "string option"
  bb_amount :: "rat option"
  bb_type :: "string option"
  bb_note :: "string option"

text \<open>
  \<open>POST /api/borrowed-money\<close>: a new document with the schema defaults
  (\<open>status = pending\<close>, \<open>repaid_amount = 0\<close>), validated and then passed through the
  save hook. A missing required field or a failed validator throws, and the handler
  answers 500.
\<close>

definition post_borrowed :: "db \<Rightarrow> oid \<Rightarrow> borrowed_body \<Rightarrow> response \<times> db" where
  "post_borrowed s u b =
     (case (bb_name b, bb_amount b, bb_type b) of
        (Some n, Some a, Some t) \<Rightarrow>
          (let d = \<lparr>bm_id = next_id s, bm_user_id = u, bm_name = trim n,
                    bm_phone = map_option trim (bb_phone b), bm_amount = a, bm_type = t,
                    bm_status = ''pending'', bm_note = map_option trim (bb_note b),
                    bm_repaid_amount = 0\<rparr>
           in if bm_valid d
              then (reply 201 ((if t = ''borrowed'' then ''Borrowed'' else ''Lent'')
                                @ '' money recorded successfully''),
                    s\<lparr>borrowed_moneys := borrowed_moneys s @ [pre_save d],
                      next_id := next_id s + 1\<rparr>)
              else (reply 500 ''Server error while recording borrowed money'', s))
      | _ \<Rightarrow> (reply 500 ''Server error while recording borrowed money'', s))"

text \<open>
  \<open>PUT /api/borrowed-money/:id\<close>: \<open>findOneAndUpdate\<close> with \<open>runValidators\<close>. Keys
  the body leaves undefined are not written. The validators run on the values being set;
  the save hook does not run. A malformed id or a failed validator throws before the
  lookup, and the handler answers 500.
\<close>

definition bm_apply_update :: "borrowed_body \<Rightarrow> borrowed_money \<Rightarrow> borrowed_money" where
  "bm_apply_update b d =
     d\<lparr>bm_name := (case bb_name b of None \<Rightarrow> bm_name d | Some n \<Rightarrow> trim n),
       bm_phone := (case bb_phone b of None \<Rightarrow> bm_phone d | Some p \<Rightarrow> Some (trim p)),
       bm_amount := (case bb_amount b of None \<Rightarrow> bm_amount d | Some a \<Rightarrow> a),
       bm_type := (case bb_type b of None \<Rightarrow> bm_type d | Some t \<Rightarrow> t),
       bm_note := (case bb_note b of None \<Rightarrow> bm_note d | Some n \<Rightarrow> Some (trim n))\<rparr>"

definition bm_update_valid :: "borrowed_body \<Rightarrow> bool" where
  "bm_update_valid b =
     ((case bb_name b of None \<Rightarrow> True | Some n \<Rightarrow> trim n \<noteq> [] \<and> length (trim n) \<le> 100)
      \<and> \<not> too_long 20 (map_option trim (bb_phone b))
      \<and> (case bb_amount b of None \<Rightarrow> True | Some a \<Rightarrow> 1 / 100 \<le> a)
      \<and> (case bb_type b of None \<Rightarrow> True | Some t \<Rightarrow> t \<in> set bm_types)
      \<and> \<not> too_long 500 (map_option trim (bb_note b)))"

definition put_borrowed :: "db \<Rightarrow> oid \<Rightarrow> string \<Rightarrow> borrowed_body \<Rightarrow> response \<times> db" where
  "put_borrowed s u rid b =
     (if isValidObjectId rid \<and> bm_update_valid b
      then (let q = (\<lambda>d. bm_id d = to_oid rid \<and> bm_user_id d = u)
            in case find q (borrowed_moneys s) of
                 None \<Rightarrow> (reply 404 ''Record not found'', s)
               | Some d \<Rightarrow>
                   (reply 200 ''Record updated successfully'',
                    s\<lparr>borrowed_moneys := update_first q (bm_apply_update b) (borrowed_moneys s)\<rparr>))
      else (reply 500 ''Server error while updating record'', s))"

section \<open>Payment: schema and routes\<close>

definition payment_types :: "string list" where
  "payment_types = [''credit_card'', ''borrowed'']"

definition payment_methods :: "string list" where
  "payment_methods = [''cash'', ''bank_transfer'', ''upi'', ''cheque'']"

definition payment_valid :: "payment \<Rightarrow> bool" where
  "payment_valid p =
     (pay_type p \<in> set payment_types \<and> 1 / 100 \<le> pay_amount p
      \<and> \<not> too_long 500 (pay_note p) \<and> pay_payment_method p \<in> set payment_methods)"

text \<open>
  \<open>new Payment({...})\<close> followed by \<open>save()\<close>: \<open>None\<close> when the validation throws
  (the amount is required), otherwise the stored document.
\<close>

definition new_payment ::
  "oid \<Rightarrow> oid \<Rightarrow> string \<Rightarrow> oid \<Rightarrow> rat option \<Rightarrow> date \<Rightarrow> string option \<Rightarrow> string option
     \<Rightarrow> payment option" where
  "new_payment i u t r amt d note meth =
     (case amt of
        None \<Rightarrow> None
      | Some a \<Rightarrow>
          (let p = \<lparr>pay_id = i, pay_user_id = u, pay_type = t, pay_reference_id = r,
                    pay_amount = a, pay_payment_date = d, pay_note = map_option trim note,
                    pay_payment_method = (case meth of None \<Rightarrow> ''bank_transfer'' | Some m \<Rightarrow> m)\<rparr>
           in if payment_valid p then Some p else None))"

text \<open>
  \<open>Payment.aggregate([{$match: {user_id, type: 'borrowed', reference_id}},
  {$group: {_id: null, total: {$sum: '$amount'}}}])\<close>: no group when nothing matches,
  otherwise one group with the sum; then \<open>totalPaid[0]?.total || 0\<close>.
\<close>

definition borrowed_payments_of :: "db \<Rightarrow> oid \<Rightarrow> oid \<Rightarrow> payment list" where
  "borrowed_payments_of s u r =
     filter (\<lambda>p. pay_user_id p = u \<and> pay_type p = ''borrowed'' \<and> pay_reference_id p = r)
       (payments s)"

definition aggregate_total :: "payment list \<Rightarrow> rat list" where
  "aggregate_total ps = (if ps = [] then [] else [sum_list (map pay_amount ps)])"

definition total_or_zero :: "rat list \<Rightarrow> rat" where
  "total_or_zero g = (case g of [] \<Rightarrow> 0 | t # _ \<Rightarrow> (if t = 0 then 0 else t))"

text \<open>
  The recomputation shared by \<open>PUT\<close> and \<open>DELETE /api/payments/:id\<close>: when the
  referenced record exists, its \<open>repaid_amount\<close> (and nothing else) is overwritten by
  \<open>Math.min(total, borrowed.amount)\<close>.
\<close>

definition recompute_repaid :: "db \<Rightarrow> oid \<Rightarrow> payment \<Rightarrow> db" where
  "recompute_repaid s u p =
     (if pay_type p = ''borrowed''
      then (case find (\<lambda>d. bm_id d = pay_reference_id p) (borrowed_moneys s) of
              None \<Rightarrow> s
            | Some d \<Rightarrow>
                (let total = total_or_zero
                       (aggregate_total (borrowed_payments_of s u (pay_reference_id p)));
                     newRepaidAmount = min total (bm_amount d)
                 in s\<lparr>borrowed_moneys :=
                        update_first (\<lambda>x. bm_id x = pay_reference_id p)
                          (\<lambda>x. x\<lparr>bm_repaid_amount := newRepaidAmount\<rparr>) (borrowed_moneys s)\<rparr>))
      else s)"

record payment_body =
  pb_type :: "string option"
  pb_reference_id :: "string option"
  pb_amount :: "amount_val option"
  pb_payment_date :: "date option"
  pb_note :: "string option"
  pb_payment_method :: "string option"

text \<open>
  \<open>POST /api/payments\<close>. \<open>now\<close> is \<open>new Date()\<close>. \<open>save_payment\<close> is the part
  after the reference checks: the payment is saved with its amount cast by the schema,
  and for a payment of type \<open>borrowed\<close> the handler then computes
  \<open>Math.min(borrowed.repaid_amount + amount, borrowed.amount)\<close> with the raw \<open>amount\<close>
  of the body and writes it through \<open>findByIdAndUpdate\<close>: only \<open>repaid_amount\<close> is
  written. Reading a field of the \<open>null\<close> that \<open>findById\<close> returns for a missing
  record throws, and so does the cast of \<open>NaN\<close> in the update, both after the payment
  is saved.
\<close>

definition save_payment ::
  "runtime \<Rightarrow> date \<Rightarrow> db \<Rightarrow> oid \<Rightarrow> string \<Rightarrow> oid \<Rightarrow> payment_body \<Rightarrow> response \<times> db" where
  "save_payment rt now s u t r b =
     (case new_payment (next_id s) u t r (cast_number rt (pb_amount b))
             (case pb_payment_date b of None \<Rightarrow> now | Some d \<Rightarrow> d)
             (pb_note b) (pb_payment_method b) of
        None \<Rightarrow> (reply 500 ''Server error while recording payment'', s)
      | Some p \<Rightarrow>
          (let s1 = s\<lparr>payments := payments s @ [p], next_id := next_id s + 1\<rparr>
           in if t = ''borrowed''
              then (case find (\<lambda>d. bm_id d = r) (borrowed_moneys s1) of
                      None \<Rightarrow> (reply 500 ''Server error while recording payment'', s1)
                    | Some d \<Rightarrow>
                        (case math_min rt (js_plus rt (bm_repaid_amount d) (pb_amount b))
                                (bm_amount d) of
                           None \<Rightarrow> (reply 500 ''Server error while recording payment'', s1)
                         | Some newRepaidAmount \<Rightarrow>
                             (reply 201 ''Payment recorded successfully'',
                              s1\<lparr>borrowed_moneys :=
                                   update_first (\<lambda>x. bm_id x = r)
                                     (\<lambda>x. x\<lparr>bm_repaid_amount := newRepaidAmount\<rparr>)
                                     (borrowed_moneys s1)\<rparr>)))
              else (reply 201 ''Payment recorded successfully'', s1)))"

definition post_payment ::
  "runtime \<Rightarrow> date \<Rightarrow> db \<Rightarrow> oid \<Rightarrow> payment_body \<Rightarrow> response \<times> db" where
  "post_payment rt now s u b =
     (case pb_reference_id b of
        None \<Rightarrow> (reply_field 400 ''Invalid reference ID format. Reference ID must be a valid MongoDB ObjectId.'' ''reference_id'', s)
      | Some ref \<Rightarrow>
          if \<not> isValidObjectId ref
          then (reply_field 400 ''Invalid reference ID format. Reference ID must be a valid MongoDB ObjectId.'' ''reference_id'', s)
          else if pb_type b = Some ''credit_card''
          then (if find (\<lambda>c. cc_id c = to_oid ref \<and> cc_user_id c = u) (credit_cards s) = None
                then (reply_field 400 ''Credit card not found or does not belong to you'' ''reference_id'', s)
                else save_payment rt now s u ''credit_card'' (to_oid ref) b)
          else if pb_type b = Some ''borrowed''
          then (if find (\<lambda>d. bm_id d = to_oid ref \<and> bm_user_id d = u) (borrowed_moneys s) = None
                then (reply_field 400 ''Borrowed money record not found or does not belong to you'' ''reference_id'', s)
                else save_payment rt now s u ''borrowed'' (to_oid ref) b)
          else (reply_field 400 ''Invalid payment type. Must be either credit_card or borrowed'' ''type'', s))"

record payment_update =
  pu_amount :: "rat option"
  pu_payment_date :: "date option"
  pu_note :: "string option"
  pu_payment_method :: "string option"

definition pay_apply_update :: "payment_update \<Rightarrow> payment \<Rightarrow> payment" where
  "pay_apply_update b p =
     p\<lparr>pay_amount := (case pu_amount b of None \<Rightarrow> pay_amount p | Some a \<Rightarrow> a),
       pay_payment_date := (case pu_payment_date b of None \<Rightarrow> pay_payment_date p | Some d \<Rightarrow> d),
       pay_note := (case pu_note b of None \<Rightarrow> pay_note p | Some n \<Rightarrow> Some (trim n)),
       pay_payment_method :=
         (case pu_payment_method b of None \<Rightarrow> pay_payment_method p | Some m \<Rightarrow> m)\<rparr>"

definition pay_update_valid :: "payment_update \<Rightarrow> bool" where
  "pay_update_valid b =
     ((case pu_amount b of None \<Rightarrow> True | Some a \<Rightarrow> 1 / 100 \<le> a)
      \<and> \<not> too_long 500 (map_option trim (pu_note b))
      \<and> (case pu_payment_method b of None \<Rightarrow> True | Some m \<Rightarrow> m \<in> set payment_methods))"

text \<open>\<open>PUT /api/payments/:id\<close>: update the payment, then recompute from the payments.\<close>

definition put_payment :: "db \<Rightarrow> oid \<Rightarrow> string \<Rightarrow> payment_update \<Rightarrow> response \<times> db" where
  "put_payment s u pid b =
     (if isValidObjectId pid \<and> pay_update_valid b
      then (let q = (\<lambda>p. pay_id p = to_oid pid \<and> pay_user_id p = u)
            in case find q (payments s) of
                 None \<Rightarrow> (reply 404 ''Payment not found'', s)
               | Some p0 \<Rightarrow>
                   (let payment = pay_apply_update b p0;
                        s1 = s\<lparr>payments := update_first q (pay_apply_update b) (payments s)\<rparr>
                    in (reply 200 ''Payment updated successfully'',
                        recompute_repaid s1 u payment)))
      else (reply 500 ''Server error while updating payment'', s))"

text \<open>\<open>DELETE /api/payments/:id\<close>: delete the payment, then recompute from the rest.\<close>

definition delete_payment :: "db \<Rightarrow> oid \<Rightarrow> string \<Rightarrow> response \<times> db" where
  "delete_payment s u pid =
     (if \<not> isValidObjectId pid
      then (reply 500 ''Server error while deleting payment'', s)
      else (case find (\<lambda>p. pay_id p = to_oid pid \<and> pay_user_id p = u) (payments s) of
              None \<Rightarrow> (reply 404 ''Payment not found'', s)
            | Some payment \<Rightarrow>
                (let s1 = s\<lparr>payments := delete_first (\<lambda>p. pay_id p = to_oid pid) (payments s)\<rparr>
                 in (reply 200 ''Payment deleted successfully'',
                     recompute_repaid s1 u payment))))"

text \<open>
  \<open>GET /api/payments/summary/totals\<close>. The \<open>$group\<close> stage yields one group for each
  type that occurs among the matched payments; \<open>forEach\<close> then overwrites the zero
  defaults of the two known types.
\<close>

record type_group =
  g_id :: string
  g_total_amount :: rat
  g_count :: nat

record type_total =
  tt_amount :: rat
  tt_count :: nat

record totals =
  credit_card :: type_total
  borrowed :: type_total

definition date_filter :: "date option \<Rightarrow> date option \<Rightarrow> payment \<Rightarrow> bool" where
  "date_filter start_date end_date p =
     ((case start_date of None \<Rightarrow> True | Some d \<Rightarrow> d \<le> pay_payment_date p)
      \<and> (case end_date of None \<Rightarrow> True | Some d \<Rightarrow> pay_payment_date p \<le> d))"

definition group_by_type :: "payment list \<Rightarrow> type_group list" where
  "group_by_type ps =
     map (\<lambda>t. \<lparr>g_id = t,
               g_total_amount = sum_list (map pay_amount (filter (\<lambda>p. pay_type p = t) ps)),
               g_count = length (filter (\<lambda>p. pay_type p = t) ps)\<rparr>)
       (remdups (map pay_type ps))"

definition add_group :: "totals \<Rightarrow> type_group \<Rightarrow> totals" where
  "add_group tot item =
     (if g_id item = ''credit_card''
      then tot\<lparr>credit_card := \<lparr>tt_amount = g_total_amount item, tt_count = g_count item\<rparr>\<rparr>
      else if g_id item = ''borrowed''
      then tot\<lparr>borrowed := \<lparr>tt_amount = g_total_amount item, tt_count = g_count item\<rparr>\<rparr>
      else tot)"

definition summary_totals :: "db \<Rightarrow> oid \<Rightarrow> date option \<Rightarrow> date option \<Rightarrow> nat \<times> totals" where
  "summary_totals s u start_date end_date =
     (let summary = group_by_type
            (filter (\<lambda>p. pay_user_id p = u \<and> date_filter start_date end_date p) (payments s))
      in (200, foldl add_group
                 \<lparr>credit_card = \<lparr>tt_amount = 0, tt_count = 0\<rparr>,
                  borrowed = \<lparr>tt_amount = 0, tt_count = 0\<rparr>\<rparr> summary))"

section \<open>BorrowedMoney: repayment and deletion\<close>

record repay_body =
  rb_amount :: "amount_val option"
  rb_payment_date :: "date option"
  rb_note :: "string option"
  rb_payment_method :: "string option"

text \<open>
  \<open>POST /api/borrowed-money/:id/repay\<close>. The checks run in the order of the source:
  the amount, the date, the record, the remaining amount. \<open>record_repayment\<close> is the
  part after the checks: the payment is saved first, with its amount cast by the schema;
  \<open>newRepaidAmount\<close> is \<open>borrowedMoney.repaid_amount + amount\<close> with the raw \<open>amount\<close>
  of the body, and the record is updated afterwards with \<open>runValidators\<close> (the new
  value is cast to a number, and \<open>repaid_amount\<close> has \<open>min: 0\<close>), so a failed update
  leaves the payment behind.
\<close>

definition record_repayment ::
  "runtime \<Rightarrow> db \<Rightarrow> oid \<Rightarrow> oid \<Rightarrow> borrowed_money \<Rightarrow> amount_val \<Rightarrow> date \<Rightarrow> repay_body
     \<Rightarrow> response \<times> db" where
  "record_repayment rt s u r borrowedMoney amount payment_date b =
     (case new_payment (next_id s) u ''borrowed'' r (cast_number rt (Some amount)) payment_date
             (if falsy_str (rb_note b) then Some (''Repayment for '' @ bm_name borrowedMoney)
              else rb_note b)
             (if falsy_str (rb_payment_method b) then Some ''cash'' else rb_payment_method b) of
        None \<Rightarrow> (reply 500 ''Server error while recording repayment'', s)
      | Some p \<Rightarrow>
          (let s1 = s\<lparr>payments := payments s @ [p], next_id := next_id s + 1\<rparr>;
               newRepaidAmount = js_plus rt (bm_repaid_amount borrowedMoney) (Some amount)
           in case num_of rt newRepaidAmount of
                None \<Rightarrow> (reply 500 ''Server error while recording repayment'', s1)
              | Some stored \<Rightarrow>
                  if stored < 0
                  then (reply 500 ''Server error while recording repayment'', s1)
                  else (let s2 = s1\<lparr>borrowed_moneys :=
                              update_first (\<lambda>x. bm_id x = r)
                                (\<lambda>x. x\<lparr>bm_repaid_amount := stored,
                                       bm_status :=
                                         (if js_ge rt newRepaidAmount (bm_amount borrowedMoney)
                                          then ''repaid'' else ''partial'')\<rparr>)
                                (borrowed_moneys s1)\<rparr>
                        in case find (\<lambda>x. bm_id x = r) (borrowed_moneys s2) of
                             None \<Rightarrow> (reply 500 ''Server error while recording repayment'', s2)
                           | Some updated \<Rightarrow>
                               (\<lparr>res_status = 201,
                                 res_message = ''Repayment recorded successfully'',
                                 res_field = None,
                                 res_remaining_amount =
                                   Some (bm_amount updated - bm_repaid_amount updated)\<rparr>,
                                s2))))"

definition repay :: "runtime \<Rightarrow> db \<Rightarrow> oid \<Rightarrow> string \<Rightarrow> repay_body \<Rightarrow> response \<times> db" where
  "repay rt s u rid b =
     (case rb_amount b of
        None \<Rightarrow> (reply 400 ''Valid repayment amount is required'', s)
      | Some amount \<Rightarrow>
        if \<not> truthy_amount amount then (reply 400 ''Valid repayment amount is required'', s)
        else if js_le rt (Some amount) 0
        then (reply 400 ''Valid repayment amount is required'', s)
        else (case rb_payment_date b of
          None \<Rightarrow> (reply 400 ''Payment date is required'', s)
        | Some payment_date \<Rightarrow>
          if \<not> isValidObjectId rid
          then (reply 500 ''Server error while recording repayment'', s)
          else (case find (\<lambda>d. bm_id d = to_oid rid \<and> bm_user_id d = u) (borrowed_moneys s) of
            None \<Rightarrow> (reply 404 ''Record not found'', s)
          | Some borrowedMoney \<Rightarrow>
            (let remainingAmount = bm_amount borrowedMoney - bm_repaid_amount borrowedMoney
             in if js_gt rt (Some amount) remainingAmount
                then (\<lparr>res_status = 400,
                       res_message = ''Repayment amount cannot exceed remaining amount'',
                       res_field = None, res_remaining_amount = Some remainingAmount\<rparr>, s)
                else record_repayment rt s u (to_oid rid) borrowedMoney amount payment_date b))))"

text \<open>\<open>DELETE /api/borrowed-money/:id\<close>: refused while the user has payments on it.\<close>

definition delete_borrowed :: "db \<Rightarrow> oid \<Rightarrow> string \<Rightarrow> response \<times> db" where
  "delete_borrowed s u rid =
     (if \<not> isValidObjectId rid
      then (reply 500 ''Server error while deleting record'', s)
      else (case find (\<lambda>d. bm_id d = to_oid rid \<and> bm_user_id d = u) (borrowed_moneys s) of
              None \<Rightarrow> (reply 404 ''Record not found'', s)
            | Some d \<Rightarrow>
                if borrowed_payments_of s u (to_oid rid) \<noteq> []
                then (reply 400 ''Cannot delete record with payment history. Please delete payments first.'', s)
                else (reply 200 ''Record deleted successfully'',
                      s\<lparr>borrowed_moneys :=
                          delete_first (\<lambda>x. bm_id x = to_oid rid) (borrowed_moneys s)\<rparr>)))"

section \<open>Expense: schema, save hook and routes\<close>

definition payment_modes :: "string list" where
  "payment_modes = [''cash'', ''credit_card'', ''borrowed'']"

definition recurring_frequencies :: "string list" where
  "recurring_frequencies = [''daily'', ''weekly'', ''monthly'', ''yearly'']"

definition expense_valid :: "expense \<Rightarrow> bool" where
  "expense_valid e =
     (1 / 100 \<le> exp_amount e \<and> exp_payment_mode e \<in> set payment_modes
      \<and> \<not> too_long 500 (exp_note e)
      \<and> (case exp_recurring_frequency e of None \<Rightarrow> True
          | Some f \<Rightarrow> f \<in> set recurring_frequencies))"

text \<open>\<open>expenseSchema.pre('save')\<close>: the error passed to \<open>next\<close>, if any.\<close>

definition expense_pre_save :: "expense \<Rightarrow> string option" where
  "expense_pre_save e =
     (if exp_payment_mode e = ''credit_card'' \<and> exp_credit_card_id e = None
      then Some ''Credit card must be selected when payment mode is credit_card''
      else if exp_payment_mode e = ''borrowed'' \<and> exp_borrowed_id e = None
      then Some ''Borrowed money reference must be set when payment mode is borrowed''
      else None)"

record expense_body =
  eb_amount :: "rat option"
  eb_category_id :: idval
  eb_payment_mode :: "string option"
  eb_credit_card_id :: idval
  eb_borrowed_id :: idval
  eb_date :: "date option"
  eb_note :: "string option"
  eb_is_recurring :: "bool option"
  eb_recurring_frequency :: "string option"

text \<open>
  The clean-up \<open>x && x.trim() !== '' ? x : undefined\<close>, and the cast of the cleaned
  value to an optional ObjectId: the outer \<open>None\<close> is Mongoose's CastError.
\<close>

definition clean_id :: "idval \<Rightarrow> idval" where
  "clean_id v = (if truthy_id v \<and> \<not> blank_id v then v else Undefined)"

definition cast_ref :: "idval \<Rightarrow> oid option option" where
  "cast_ref v =
     (case v of Undefined \<Rightarrow> Some None | Null \<Rightarrow> Some None
      | Str x \<Rightarrow> (if isValidObjectId x then Some (Some (to_oid x)) else None))"

text \<open>
  \<open>POST /api/expenses\<close>. Every check of the handler answers 400 and writes nothing;
  a failure inside \<open>save()\<close> (cast, validators, the save hook) answers 500.
\<close>

definition save_expense :: "date \<Rightarrow> db \<Rightarrow> oid \<Rightarrow> rat \<Rightarrow> string \<Rightarrow> expense_body \<Rightarrow> response \<times> db" where
  "save_expense now s u amount payment_mode b =
     (case (cast_ref (clean_id (eb_credit_card_id b)), cast_ref (clean_id (eb_borrowed_id b))) of
        (Some cc, Some bo) \<Rightarrow>
          (let e = \<lparr>exp_id = next_id s, exp_user_id = u, exp_amount = amount,
                    exp_category_id = id_of (eb_category_id b), exp_payment_mode = payment_mode,
                    exp_credit_card_id = cc, exp_borrowed_id = bo,
                    exp_date = (case eb_date b of None \<Rightarrow> now | Some d \<Rightarrow> d),
                    exp_note = map_option trim (eb_note b),
                    exp_is_recurring = (case eb_is_recurring b of None \<Rightarrow> False | Some r \<Rightarrow> r),
                    exp_recurring_frequency = eb_recurring_frequency b\<rparr>
           in if expense_valid e \<and> expense_pre_save e = None
              then (reply 201 ''Expense created successfully'',
                    s\<lparr>expenses := expenses s @ [e], next_id := next_id s + 1\<rparr>)
              else (reply 500 ''Server error while creating expense'', s))
      | _ \<Rightarrow> (reply 500 ''Server error while creating expense'', s))"

definition post_expense :: "date \<Rightarrow> db \<Rightarrow> oid \<Rightarrow> expense_body \<Rightarrow> response \<times> db" where
  "post_expense now s u b =
     (case eb_amount b of
        None \<Rightarrow> (reply 400 ''Valid amount is required'', s)
      | Some amount \<Rightarrow>
        if amount = 0 \<or> amount \<le> 0 then (reply 400 ''Valid amount is required'', s)
        else if \<not> truthy_id (eb_category_id b) then (reply 400 ''Category is required'', s)
        else (case eb_payment_mode b of
          None \<Rightarrow> (reply 400 ''Payment mode is required'', s)
        | Some payment_mode \<Rightarrow>
          if payment_mode = [] then (reply 400 ''Payment mode is required'', s)
          else if \<not> valid_id (eb_category_id b)
          then (reply_field 400 ''Invalid category ID format. Category ID must be a valid MongoDB ObjectId.'' ''category_id'', s)
          else if find (\<lambda>c. cat_id c = id_of (eb_category_id b) \<and> cat_user_id c = u) (categories s) = None
          then (reply_field 400 ''Category not found or does not belong to you'' ''category_id'', s)
          else if payment_mode = ''credit_card'' \<and> \<not> truthy_id (eb_credit_card_id b)
          then (reply_field 400 ''Credit card is required for credit card payment'' ''credit_card_id'', s)
          else if payment_mode = ''credit_card'' \<and> \<not> valid_id (eb_credit_card_id b)
          then (reply_field 400 ''Invalid credit card ID format. Credit card ID must be a valid MongoDB ObjectId.'' ''credit_card_id'', s)
          else if payment_mode = ''credit_card''
                  \<and> find (\<lambda>c. cc_id c = id_of (eb_credit_card_id b) \<and> cc_user_id c = u) (credit_cards s) = None
          then (reply_field 400 ''Credit card not found or does not belong to you'' ''credit_card_id'', s)
          else if payment_mode = ''borrowed''
                  \<and> (\<not> truthy_id (eb_borrowed_id b) \<or> blank_id (eb_borrowed_id b))
          then (reply_field 400 ''Borrowed money reference is required'' ''borrowed_id'', s)
          else if payment_mode = ''borrowed'' \<and> \<not> valid_id (eb_borrowed_id b)
          then (reply_field 400 ''Invalid borrowed money ID format. Borrowed money ID must be a valid MongoDB ObjectId.'' ''borrowed_id'', s)
          else if payment_mode = ''borrowed''
                  \<and> find (\<lambda>d. bm_id d = id_of (eb_borrowed_id b) \<and> bm_user_id d = u) (borrowed_moneys s) = None
          then (reply_field 400 ''Borrowed money record not found or does not belong to you'' ''borrowed_id'', s)
          else save_expense now s u amount payment_mode b))"

text \<open>
  \<open>PUT /api/expenses/:id\<close>. The three reference checks are separate functions that
  return the rejection, if any. The credit-card and borrowed checks run only when the
  body carries both the payment mode and a truthy id. The update goes through
  \<open>findByIdAndUpdate\<close> with \<open>runValidators\<close>: keys left undefined are not written,
  and the save hook does not run.
\<close>

definition check_category :: "db \<Rightarrow> oid \<Rightarrow> expense_body \<Rightarrow> response option" where
  "check_category s u b =
     (if truthy_id (eb_category_id b)
      then (if \<not> valid_id (eb_category_id b)
            then Some (reply_field 400 ''Invalid category ID format. Category ID must be a valid MongoDB ObjectId.'' ''category_id'')
            else if find (\<lambda>c. cat_id c = id_of (eb_category_id b) \<and> cat_user_id c = u) (categories s) = None
            then Some (reply_field 400 ''Category not found or does not belong to you'' ''category_id'')
            else None)
      else None)"

definition check_credit_card :: "db \<Rightarrow> oid \<Rightarrow> expense_body \<Rightarrow> response option" where
  "check_credit_card s u b =
     (if eb_payment_mode b = Some ''credit_card'' \<and> truthy_id (eb_credit_card_id b)
      then (if \<not> valid_id (eb_credit_card_id b)
            then Some (reply_field 400 ''Invalid credit card ID format. Credit card ID must be a valid MongoDB ObjectId.'' ''credit_card_id'')
            else if find (\<lambda>c. cc_id c = id_of (eb_credit_card_id b) \<and> cc_user_id c = u) (credit_cards s) = None
            then Some (reply_field 400 ''Credit card not found or does not belong to you'' ''credit_card_id'')
            else None)
      else None)"

definition check_borrowed :: "db \<Rightarrow> oid \<Rightarrow> expense_body \<Rightarrow> response option" where
  "check_borrowed s u b =
     (if eb_payment_mode b = Some ''borrowed'' \<and> truthy_id (eb_borrowed_id b)
      then (if \<not> truthy_id (eb_borrowed_id b) \<or> blank_id (eb_borrowed_id b)
            then Some (reply_field 400 ''Borrowed money reference is required'' ''borrowed_id'')
            else if \<not> valid_id (eb_borrowed_id b)
            then Some (reply_field 400 ''Invalid borrowed money ID format. Borrowed money ID must be a valid MongoDB ObjectId.'' ''borrowed_id'')
            else if find (\<lambda>d. bm_id d = id_of (eb_borrowed_id b) \<and> bm_user_id d = u) (borrowed_moneys s) = None
            then Some (reply_field 400 ''Borrowed money record not found or does not belong to you'' ''borrowed_id'')
            else None)
      else None)"

text \<open>
  The clean-up of the update data: a string that is blank becomes \<open>undefined\<close>, while
  \<open>undefined\<close> and \<open>null\<close> stay as they are.
\<close>

definition clean_update_id :: "idval \<Rightarrow> idval" where
  "clean_update_id v = (case v of Str x \<Rightarrow> (if trim x \<noteq> [] then Str x else Undefined) | _ \<Rightarrow> v)"

text \<open>
  What \<open>runValidators\<close> and the casts accept: a failure throws and the handler answers
  500. \<open>category_id\<close> is required, so \<open>null\<close> is refused.
\<close>

definition expense_update_valid :: "expense_body \<Rightarrow> bool" where
  "expense_update_valid b =
     ((case eb_amount b of None \<Rightarrow> True | Some a \<Rightarrow> 1 / 100 \<le> a)
      \<and> (case eb_category_id b of Undefined \<Rightarrow> True | Null \<Rightarrow> False | Str x \<Rightarrow> isValidObjectId x)
      \<and> (case eb_payment_mode b of None \<Rightarrow> True | Some m \<Rightarrow> m \<in> set payment_modes)
      \<and> cast_ref (clean_update_id (eb_credit_card_id b)) \<noteq> None
      \<and> cast_ref (clean_update_id (eb_borrowed_id b)) \<noteq> None
      \<and> \<not> too_long 500 (map_option trim (eb_note b))
      \<and> (case eb_recurring_frequency b of None \<Rightarrow> True
          | Some f \<Rightarrow> f \<in> set recurring_frequencies))"

definition set_ref :: "idval \<Rightarrow> oid option \<Rightarrow> oid option" where
  "set_ref v old = (case v of Undefined \<Rightarrow> old | Null \<Rightarrow> None | Str x \<Rightarrow> Some (to_oid x))"

definition exp_apply_update :: "expense_body \<Rightarrow> expense \<Rightarrow> expense" where
  "exp_apply_update b e =
     e\<lparr>exp_amount := (case eb_amount b of None \<Rightarrow> exp_amount e | Some a \<Rightarrow> a),
       exp_category_id :=
         (case eb_category_id b of Str x \<Rightarrow> to_oid x | _ \<Rightarrow> exp_category_id e),
       exp_payment_mode := (case eb_payment_mode b of None \<Rightarrow> exp_payment_mode e | Some m \<Rightarrow> m),
       exp_credit_card_id := set_ref (clean_update_id (eb_credit_card_id b)) (exp_credit_card_id e),
       exp_borrowed_id := set_ref (clean_update_id (eb_borrowed_id b)) (exp_borrowed_id e),
       exp_date := (case eb_date b of None \<Rightarrow> exp_date e | Some d \<Rightarrow> d),
       exp_note := (case eb_note b of None \<Rightarrow> exp_note e | Some n \<Rightarrow> Some (trim n)),
       exp_is_recurring := (case eb_is_recurring b of None \<Rightarrow> exp_is_recurring e | Some r \<Rightarrow> r),
       exp_recurring_frequency :=
         (case eb_recurring_frequency b of None \<Rightarrow> exp_recurring_frequency e | Some f \<Rightarrow> Some f)\<rparr>"

definition put_expense :: "db \<Rightarrow> oid \<Rightarrow> string \<Rightarrow> expense_body \<Rightarrow> response \<times> db" where
  "put_expense s u eid b =
     (if \<not> isValidObjectId eid then (reply 500 ''Server error while updating expense'', s)
      else (case find (\<lambda>e. exp_id e = to_oid eid \<and> exp_user_id e = u) (expenses s) of
        None \<Rightarrow> (reply 404 ''Expense not found'', s)
      | Some expense \<Rightarrow>
          (case check_category s u b of
             Some r \<Rightarrow> (r, s)
           | None \<Rightarrow>
          (case check_credit_card s u b of
             Some r \<Rightarrow> (r, s)
           | None \<Rightarrow>
          (case check_borrowed s u b of
             Some r \<Rightarrow> (r, s)
           | None \<Rightarrow>
               if \<not> expense_update_valid b
               then (reply 500 ''Server error while updating expense'', s)
               else (reply 200 ''Expense updated successfully'',
                     s\<lparr>expenses := update_first (\<lambda>e. exp_id e = to_oid eid)
                                     (exp_apply_update b) (expenses s)\<rparr>))))))"

section \<open>Category: schema and creation\<close>

text \<open>
  \<open>POST /api/categories\<close> looks for a category of the user whose name matches
  \<open>new RegExp(`^${name}$`, 'i')\<close>. The regular-expression engine is outside the
  repository and is a parameter: \<open>rx pattern\<close> is \<open>None\<close> when the pattern is refused
  (the constructor throws, and the handler answers 500), otherwise the matcher.
  \<open>save()\<close> then validates the trimmed name (required, at most 50 characters) and the
  unique index on \<open>(name, user_id)\<close> refuses an exact duplicate; both throw.
\<close>

type_synonym regexp_engine = "string \<Rightarrow> (string \<Rightarrow> bool) option"

record category_body =
  cb_name :: "string option"
  cb_color :: "string option"
  cb_icon :: "string option"

definition default_icon :: string where
  "default_icon = [CHR 0xF0, CHR 0x9F, CHR 0x92, CHR 0xB0]"

text \<open>\<open>x || d\<close> on an optional string, and \<open>${name}\<close> inside the template literal.\<close>

definition or_default :: "string option \<Rightarrow> string \<Rightarrow> string" where
  "or_default x d = (case x of None \<Rightarrow> d | Some y \<Rightarrow> (if y = [] then d else y))"

definition template_name :: "string option \<Rightarrow> string" where
  "template_name n = (case n of None \<Rightarrow> ''undefined'' | Some x \<Rightarrow> x)"

definition post_category :: "regexp_engine \<Rightarrow> db \<Rightarrow> oid \<Rightarrow> category_body \<Rightarrow> response \<times> db" where
  "post_category rx s u b =
     (case rx (''^'' @ template_name (cb_name b) @ ''$'') of
        None \<Rightarrow> (reply 500 ''Server error while creating category'', s)
      | Some matches \<Rightarrow>
          if find (\<lambda>c. matches (cat_name c) \<and> cat_user_id c = u) (categories s) \<noteq> None
          then (reply 400 ''Category with this name already exists'', s)
          else (case cb_name b of
            None \<Rightarrow> (reply 500 ''Server error while creating category'', s)
          | Some name \<Rightarrow>
              (let c = \<lparr>cat_id = next_id s, cat_name = trim name, cat_user_id = u,
                        cat_is_default = False,
                        cat_color = or_default (cb_color b) ''#667eea'',
                        cat_icon = or_default (cb_icon b) default_icon\<rparr>
               in if cat_name c = [] \<or> 50 < length (cat_name c)
                     \<or> find (\<lambda>x. cat_name x = cat_name c \<and> cat_user_id x = u) (categories s) \<noteq> None
                  then (reply 500 ''Server error while creating category'', s)
                  else (reply 201 ''Category created successfully'',
                        s\<lparr>categories := categories s @ [c], next_id := next_id s + 1\<rparr>))))"

section \<open>Notions the properties are stated with\<close>

text \<open>
  The status table of the data model, in its own words: \<open>0\<close> is pending,
  \<open>0 < repaid < amount\<close> is partial, \<open>repaid \<ge> amount\<close> is repaid. The table has no
  row for a negative repaid amount.
\<close>

definition spec_status :: "rat \<Rightarrow> rat \<Rightarrow> string option" where
  "spec_status repaid amount =
     (if repaid = 0 then Some ''pending''
      else if 0 < repaid \<and> repaid < amount then Some ''partial''
      else if amount \<le> repaid then Some ''repaid''
      else None)"

text \<open>
  The sum of the amounts of all payments of type \<open>borrowed\<close> that reference a record,
  whoever owns them.
\<close>

definition payments_sum :: "db \<Rightarrow> oid \<Rightarrow> rat" where
  "payments_sum s r =
     sum_list (map pay_amount
       (filter (\<lambda>q. pay_type q = ''borrowed'' \<and> pay_reference_id q = r) (payments s)))"

subsection \<open>The states the routes can produce\<close>

text \<open>
  \<open>reachable\<close> starts from any database without borrowed records and payments and is
  closed under the seven routes that write those two collections, with any runtime.
  Every other route
  (categories, credit cards, expenses) leaves them alone and may allocate ids, which
  the rule \<open>other_routes\<close> covers.
\<close>

inductive reachable :: "db \<Rightarrow> bool" where
  start: "borrowed_moneys s = [] \<Longrightarrow> payments s = [] \<Longrightarrow> reachable s"
| other_routes:
    "reachable s \<Longrightarrow> borrowed_moneys s' = borrowed_moneys s \<Longrightarrow> payments s' = payments s \<Longrightarrow>
       next_id s \<le> next_id s' \<Longrightarrow> reachable s'"
| by_post_borrowed: "reachable s \<Longrightarrow> reachable (snd (post_borrowed s u bb))"
| by_put_borrowed: "reachable s \<Longrightarrow> reachable (snd (put_borrowed s u rid bb))"
| by_repay: "reachable s \<Longrightarrow> reachable (snd (repay rt s u rid rb))"
| by_delete_borrowed: "reachable s \<Longrightarrow> reachable (snd (delete_borrowed s u rid))"
| by_post_payment: "reachable s \<Longrightarrow> reachable (snd (post_payment rt now s u pb))"
| by_put_payment: "reachable s \<Longrightarrow> reachable (snd (put_payment s u pid pu))"
| by_delete_payment: "reachable s \<Longrightarrow> reachable (snd (delete_payment s u pid))"

text \<open>
  What holds in every reachable state, on the keys of the documents: record ids are
  distinct and below the id counter, and a payment of type \<open>borrowed\<close> references an id
  below the counter and has the owner of the record it references.
\<close>

definition bm_key :: "borrowed_money \<Rightarrow> oid \<times> oid" where
  "bm_key d = (bm_id d, bm_user_id d)"

definition pay_key :: "payment \<Rightarrow> string \<times> oid \<times> oid" where
  "pay_key p = (pay_type p, pay_reference_id p, pay_user_id p)"

definition keys_ok :: "nat \<Rightarrow> (oid \<times> oid) list \<Rightarrow> (string \<times> oid \<times> oid) list \<Rightarrow> bool" where
  "keys_ok n bks pks =
     (distinct (map fst bks) \<and> (\<forall>k\<in>set bks. fst k < n)
      \<and> (\<forall>q\<in>set pks. fst q = ''borrowed'' \<longrightarrow>
            fst (snd q) < n \<and> (\<forall>k\<in>set bks. fst k = fst (snd q) \<longrightarrow> snd k = snd (snd q))))"

definition db_ok :: "db \<Rightarrow> bool" where
  "db_ok s = keys_ok (next_id s) (map bm_key (borrowed_moneys s)) (map pay_key (payments s))"

subsection \<open>A running example\<close>

text \<open>
  User 7 records a debt of 1000 to Asha (record id 1), repays 400 (payment id 2) and
  then 100 (payment id 3).
\<close>

definition asha :: borrowed_body where
  "asha = \<lparr>bb_name = Some ''Asha'', bb_phone = None, bb_amount = Some 1000,
            bb_type = Some ''borrowed'', bb_note = None\<rparr>"

definition id1 :: string where "id1 = ''000000000000000000000001''"

definition id2 :: string where "id2 = ''000000000000000000000002''"

text \<open>
  The runtime of the examples knows the decimal notation of the natural numbers, which
  is all the examples ask of it: \<open>Number\<close> of a string of digits and \<open>String\<close> of a
  natural number.
\<close>

fun digits_value :: "nat \<Rightarrow> string \<Rightarrow> nat option" where
  "digits_value n [] = Some n"
| "digits_value n (c # cs) =
     (case map_of (zip ''0123456789'' [0, 1, 2, 3, 4, 5, 6, 7, 8, 9]) c of
        None \<Rightarrow> None | Some k \<Rightarrow> digits_value (10 * n + k) cs)"

fun digits_of :: "nat \<Rightarrow> string" where
  "digits_of n =
     (if n < 10 then [''0123456789'' ! n]
      else digits_of (n div 10) @ [''0123456789'' ! (n mod 10)])"

definition digits_runtime :: runtime where
  "digits_runtime =
     \<lparr>to_number = (\<lambda>t. if t = [] then Some 0 else map_option of_nat (digits_value 0 t)),
      to_string = (\<lambda>x. if x = of_nat (nat \<lfloor>x\<rfloor>) then digits_of (nat \<lfloor>x\<rfloor>) else [])\<rparr>"

definition repay_of :: "rat \<Rightarrow> date option \<Rightarrow> repay_body" where
  "repay_of a d =
     \<lparr>rb_amount = Some (Number a), rb_payment_date = d, rb_note = None,
      rb_payment_method = None\<rparr>"

definition pay_of :: "string \<Rightarrow> string \<Rightarrow> rat \<Rightarrow> payment_body" where
  "pay_of t r a = \<lparr>pb_type = Some t, pb_reference_id = Some r, pb_amount = Some (Number a),
     pb_payment_date = None, pb_note = None, pb_payment_method = None\<rparr>"



definition asha_owing :: "rat \<Rightarrow> borrowed_body" where
  "asha_owing a = asha\<lparr>bb_amount := Some a\<rparr>"

definition db_asha :: db where
  "db_asha = snd (post_borrowed empty_db 7 asha)"

definition db_asha_400 :: db where
  "db_asha_400 = snd (repay digits_runtime db_asha 7 id1 (repay_of 400 (Some 5)))"

definition db_asha_500 :: db where
  "db_asha_500 = snd (repay digits_runtime db_asha_400 7 id1 (repay_of 100 (Some 6)))"

definition asha_record :: "rat \<Rightarrow> rat \<Rightarrow> string \<Rightarrow> borrowed_money" where
  "asha_record amount repaid status =
     \<lparr>bm_id = 1, bm_user_id = 7, bm_name = ''Asha'', bm_phone = None, bm_amount = amount,
      bm_type = ''borrowed'', bm_status = status, bm_note = None, bm_repaid_amount = repaid\<rparr>"

definition repayment :: "oid \<Rightarrow> rat \<Rightarrow> date \<Rightarrow> payment" where
  "repayment i a d =
     \<lparr>pay_id = i, pay_user_id = 7, pay_type = ''borrowed'', pay_reference_id = 1, pay_amount = a,
      pay_payment_date = d, pay_note = Some ''Repayment for Asha'', pay_payment_method = ''cash''\<rparr>"

subsection \<open>The payments a totals request matches\<close>

definition matching :: "db \<Rightarrow> oid \<Rightarrow> date option \<Rightarrow> date option \<Rightarrow> string \<Rightarrow> payment list" where
  "matching s u start_date end_date t =
     filter (\<lambda>p. pay_user_id p = u \<and> date_filter start_date end_date p \<and> pay_type p = t) (payments s)"

subsection \<open>Names without regular-expression syntax\<close>

text \<open>
  A plain string consists of ASCII letters and digits. What is assumed of the
  regular-expression engine is its behaviour on them only: for a plain \<open>p\<close>, the
  pattern \<open>^p$\<close> with the flag \<open>i\<close> is accepted and matches a plain subject exactly
  when the two are equal up to the case of the letters.
\<close>

definition plain :: "string \<Rightarrow> bool" where
  "plain x = list_all (\<lambda>c. c \<in> set ''ABCDEFGHIJKLMNOPQRSTUVWXYZabcdefghijklmnopqrstuvwxyz0123456789'') x"

definition upper :: "char \<Rightarrow> char" where
  "upper c = (case map_of (zip ''abcdefghijklmnopqrstuvwxyz'' ''ABCDEFGHIJKLMNOPQRSTUVWXYZ'') c of
                None \<Rightarrow> c | Some d \<Rightarrow> d)"

definition same_ignoring_case :: "string \<Rightarrow> string \<Rightarrow> bool" where
  "same_ignoring_case x y = (map upper x = map upper y)"

definition case_insensitive_on_plain :: "regexp_engine \<Rightarrow> bool" where
  "case_insensitive_on_plain rx =
     (\<forall>p. plain p \<longrightarrow>
        (\<exists>m. rx (''^'' @ p @ ''$'') = Some m \<and> (\<forall>x. plain x \<longrightarrow> m x = same_ignoring_case x p)))"

text \<open>
  The engine of the examples accepts the patterns \<open>^p$\<close> in which \<open>p\<close> consists of
  letters, digits and blanks, which all stand for themselves, and compares without
  regard to case.
\<close>

definition literal :: "string \<Rightarrow> bool" where
  "literal x = plain (filter (\<lambda>c. c \<noteq> CHR '' '') x)"

definition literal_engine :: regexp_engine where
  "literal_engine pat =
     (case pat of
        [] \<Rightarrow> None
      | c # rest \<Rightarrow>
          if c = CHR ''^'' \<and> rest \<noteq> [] \<and> last rest = CHR ''$'' \<and> literal (butlast rest)
          then Some (\<lambda>x. same_ignoring_case x (butlast rest)) else None)"

subsection \<open>A second example: a category and an expense\<close>

text \<open>
  User 7 creates the category Food (id 1) and an expense of 50 paid in cash (id 2).
\<close>

definition named :: "string \<Rightarrow> category_body" where
  "named n = \<lparr>cb_name = Some n, cb_color = None, cb_icon = None\<rparr>"

definition db_food :: db where
  "db_food = snd (post_category literal_engine empty_db 7 (named ''Food''))"

definition food :: "oid \<Rightarrow> oid \<Rightarrow> category" where
  "food i u = \<lparr>cat_id = i, cat_name = ''Food'', cat_user_id = u, cat_is_default = False,
       cat_color = ''#667eea'', cat_icon = default_icon\<rparr>"

definition spend :: "string \<Rightarrow> expense_body" where
  "spend mode = \<lparr>eb_amount = Some 50, eb_category_id = Str id1, eb_payment_mode = Some mode,
     eb_credit_card_id = Undefined, eb_borrowed_id = Undefined, eb_date = Some 3, eb_note = None,
     eb_is_recurring = None, eb_recurring_frequency = None\<rparr>"

definition switch_mode :: "string \<Rightarrow> expense_body" where
  "switch_mode mode = \<lparr>eb_amount = None, eb_category_id = Undefined, eb_payment_mode = Some mode,
     eb_credit_card_id = Undefined, eb_borrowed_id = Undefined, eb_date = None, eb_note = None,
     eb_is_recurring = None, eb_recurring_frequency = None\<rparr>"

definition db_lunch :: db where
  "db_lunch = snd (post_expense 0 db_food 7 (spend ''cash''))"

definition lunch :: "string \<Rightarrow> expense" where
  "lunch mode = \<lparr>exp_id = 2, exp_user_id = 7, exp_amount = 50, exp_category_id = 1,
     exp_payment_mode = mode, exp_credit_card_id = None, exp_borrowed_id = None, exp_date = 3,
     exp_note = None, exp_is_recurring = False, exp_recurring_frequency = None\<rparr>"

section \<open>Collections and the invariant of reachable states\<close>

lemma map_update_first: "(\<And>x. k (f x) = k x) \<Longrightarrow> map k (update_first P f xs) = map k xs"
  by (induction xs) auto

lemma set_delete_first: "set (delete_first P xs) \<subseteq> set xs"
  by (induction xs) auto

lemma distinct_delete_first: "distinct (map k xs) \<Longrightarrow> distinct (map k (delete_first P xs))"
proof (induction xs)
  case Nil
  then show ?case by simp
next
  case (Cons x xs)
  have "k ` set (delete_first P xs) \<subseteq> k ` set xs"
    using set_delete_first[of P xs] by blast
  with Cons show ?case by auto
qed

lemma keys_ok_same: "keys_ok n bks pks \<Longrightarrow> n \<le> m \<Longrightarrow> keys_ok m bks pks"
  by (fastforce simp: keys_ok_def)

lemma keys_ok_new_record:
  "keys_ok n bks pks \<Longrightarrow> keys_ok (Suc n) (bks @ [(n, u)]) pks"
  by (fastforce simp: keys_ok_def)

lemma keys_ok_new_payment:
  assumes ok: "keys_ok n bks pks" and new: "t = ''borrowed'' \<Longrightarrow> (r, u) \<in> set bks"
  shows "keys_ok (Suc n) bks (pks @ [(t, r, u)])"
proof -
  have d: "distinct (map fst bks)" and lt: "\<forall>k\<in>set bks. fst k < n"
    using ok by (simp_all add: keys_ok_def)
  have old: "fst (snd q) < Suc n \<and> (\<forall>k\<in>set bks. fst k = fst (snd q) \<longrightarrow> snd k = snd (snd q))"
    if "q \<in> set pks" "fst q = ''borrowed''" for q
    using ok that by (fastforce simp: keys_ok_def)
  have fresh: "r < Suc n \<and> (\<forall>k\<in>set bks. fst k = r \<longrightarrow> snd k = u)" if "t = ''borrowed''"
  proof -
    have m: "(r, u) \<in> set bks" using new that by simp
    then have "r < n" using lt by fastforce
    moreover have "snd k = u" if "k \<in> set bks" "fst k = r" for k
      using eq_key_imp_eq_value[OF d, of r "snd k" u] that m by (cases k) simp
    ultimately show ?thesis by simp
  qed
  show ?thesis
    unfolding keys_ok_def using d lt old fresh by auto
qed

lemma keys_ok_subset:
  "keys_ok n bks pks \<Longrightarrow> set pks' \<subseteq> set pks \<Longrightarrow> set bks' \<subseteq> set bks \<Longrightarrow> distinct (map fst bks') \<Longrightarrow> keys_ok n bks' pks'"
  unfolding keys_ok_def by (intro conjI; blast)


lemma bm_key_simps [simp]:
  "bm_key (d\<lparr>bm_repaid_amount := v\<rparr>) = bm_key d"
  "bm_key (d\<lparr>bm_repaid_amount := v, bm_status := w\<rparr>) = bm_key d"
  "bm_key (bm_apply_update b d) = bm_key d"
  "bm_key (pre_save d) = bm_key d"
  by (simp_all add: bm_key_def bm_apply_update_def pre_save_def Let_def)

lemma pay_key_simps [simp]: "pay_key (pay_apply_update b p) = pay_key p"
  by (simp add: pay_key_def pay_apply_update_def)

lemma find_key_mem:
  "find (\<lambda>d. bm_id d = r \<and> bm_user_id d = u) xs = Some d \<Longrightarrow> (r, u) \<in> set (map bm_key xs)"
  by (induction xs) (auto simp: bm_key_def split: if_splits)

lemma new_payment_key: "new_payment i u t r a d n m = Some p \<Longrightarrow> pay_key p = (t, r, u)"
  by (auto simp: new_payment_def pay_key_def Let_def split: option.splits if_splits)

lemma db_ok_update_borrowed:
  "db_ok s \<Longrightarrow> (\<And>x. bm_key (f x) = bm_key x) \<Longrightarrow>
     db_ok (s\<lparr>borrowed_moneys := update_first P f (borrowed_moneys s)\<rparr>)"
  by (simp add: db_ok_def map_update_first)

lemma db_ok_update_payments:
  "db_ok s \<Longrightarrow> (\<And>x. pay_key (f x) = pay_key x) \<Longrightarrow>
     db_ok (s\<lparr>payments := update_first P f (payments s)\<rparr>)"
  by (simp add: db_ok_def map_update_first)

lemma db_ok_delete_payment: "db_ok s \<Longrightarrow> db_ok (s\<lparr>payments := delete_first P (payments s)\<rparr>)"
  unfolding db_ok_def
  by (rule keys_ok_subset[where pks="map pay_key (payments s)" and bks="map bm_key (borrowed_moneys s)"])
     (use set_delete_first[of P "payments s"] in \<open>auto simp: keys_ok_def\<close>)

lemma db_ok_delete_borrowed:
  "db_ok s \<Longrightarrow> db_ok (s\<lparr>borrowed_moneys := delete_first P (borrowed_moneys s)\<rparr>)"
  unfolding db_ok_def
  by (rule keys_ok_subset[where pks="map pay_key (payments s)" and bks="map bm_key (borrowed_moneys s)"])
     (use set_delete_first[of P "borrowed_moneys s"] distinct_delete_first[of bm_id "borrowed_moneys s" P]
       in \<open>auto simp: keys_ok_def bm_key_def comp_def\<close>)

lemma db_ok_add_payment:
  assumes "db_ok s" and "pay_key p = (t, r, u)"
    and "t = ''borrowed'' \<Longrightarrow> (r, u) \<in> set (map bm_key (borrowed_moneys s))"
  shows "db_ok (s\<lparr>payments := payments s @ [p], next_id := next_id s + 1\<rparr>)"
  using assms keys_ok_new_payment[of "next_id s" "map bm_key (borrowed_moneys s)" "map pay_key (payments s)" t r u]
  by (simp add: db_ok_def)

lemma db_ok_add_borrowed:
  assumes "db_ok s" and "bm_key d = (next_id s, u)"
  shows "db_ok (s\<lparr>borrowed_moneys := borrowed_moneys s @ [d], next_id := Suc (next_id s)\<rparr>)"
  using assms keys_ok_new_record[of "next_id s" "map bm_key (borrowed_moneys s)" "map pay_key (payments s)" u]
  by (simp add: db_ok_def)

lemma post_borrowed_ok: "db_ok s \<Longrightarrow> db_ok (snd (post_borrowed s u b))"
  by (auto simp: post_borrowed_def Let_def intro!: db_ok_add_borrowed[where u=u] split: option.splits)
     (simp add: bm_key_def)

lemma put_borrowed_ok: "db_ok s \<Longrightarrow> db_ok (snd (put_borrowed s u rid b))"
  by (auto simp: put_borrowed_def Let_def intro!: db_ok_update_borrowed split: option.splits)

lemma recompute_repaid_ok: "db_ok s \<Longrightarrow> db_ok (recompute_repaid s u p)"
  by (auto simp: recompute_repaid_def Let_def intro!: db_ok_update_borrowed split: option.splits)

lemma save_payment_ok:
  assumes "db_ok s" and "t = ''borrowed'' \<Longrightarrow> (r, u) \<in> set (map bm_key (borrowed_moneys s))"
  shows "db_ok (snd (save_payment rt now s u t r b))"
proof (cases "new_payment (next_id s) u t r (cast_number rt (pb_amount b))
             (case pb_payment_date b of None \<Rightarrow> now | Some d \<Rightarrow> d)
             (pb_note b) (pb_payment_method b)")
  case None
  then show ?thesis using assms by (simp add: save_payment_def)
next
  case (Some p)
  have 1: "db_ok (s\<lparr>payments := payments s @ [p], next_id := next_id s + 1\<rparr>)"
    using assms new_payment_key[OF Some] by (intro db_ok_add_payment[where t=t and r=r and u=u]) auto
  show ?thesis
    using Some db_ok_update_borrowed[OF 1, of "\<lambda>x. x\<lparr>bm_repaid_amount := v\<rparr>" for v] 1
    by (auto simp: save_payment_def Let_def split: option.splits)
qed

lemma post_payment_ok: "db_ok s \<Longrightarrow> db_ok (snd (post_payment rt now s u b))"
  by (auto simp: post_payment_def intro!: save_payment_ok dest: find_key_mem split: option.splits)

lemma put_payment_ok: "db_ok s \<Longrightarrow> db_ok (snd (put_payment s u pid b))"
  by (auto simp: put_payment_def Let_def intro!: recompute_repaid_ok db_ok_update_payments split: option.splits)

lemma delete_payment_ok: "db_ok s \<Longrightarrow> db_ok (snd (delete_payment s u pid))"
  by (auto simp: delete_payment_def Let_def intro!: recompute_repaid_ok db_ok_delete_payment split: option.splits)

lemma delete_borrowed_ok: "db_ok s \<Longrightarrow> db_ok (snd (delete_borrowed s u rid))"
  by (auto simp: delete_borrowed_def Let_def intro!: db_ok_delete_borrowed split: option.splits)

lemma record_repayment_ok:
  assumes "db_ok s" and "(r, u) \<in> set (map bm_key (borrowed_moneys s))"
  shows "db_ok (snd (record_repayment rt s u r d a dt b))"
proof (cases "new_payment (next_id s) u ''borrowed'' r (cast_number rt (Some a)) dt
             (if falsy_str (rb_note b) then Some (''Repayment for '' @ bm_name d)
              else rb_note b)
             (if falsy_str (rb_payment_method b) then Some ''cash'' else rb_payment_method b)")
  case None
  then show ?thesis using assms by (simp add: record_repayment_def)
next
  case (Some p)
  have 1: "db_ok (s\<lparr>payments := payments s @ [p], next_id := next_id s + 1\<rparr>)"
    using assms new_payment_key[OF Some] by (intro db_ok_add_payment[where t="''borrowed''" and r=r and u=u]) auto
  show ?thesis
    using Some db_ok_update_borrowed[OF 1, of "\<lambda>x. x\<lparr>bm_repaid_amount := v, bm_status := w\<rparr>" for v w] 1
    by (auto simp: record_repayment_def Let_def split: option.splits)
qed

lemma repay_ok: "db_ok s \<Longrightarrow> db_ok (snd (repay rt s u rid b))"
  by (auto simp: repay_def Let_def intro!: record_repayment_ok dest: find_key_mem split: option.splits)

lemma reachable_db_ok: "reachable s \<Longrightarrow> db_ok s"
proof (induction rule: reachable.induct)
  case (start s)
  then show ?case by (simp add: db_ok_def keys_ok_def)
next
  case (other_routes s s')
  then show ?case using keys_ok_same[of "next_id s" _ _ "next_id s'"] by (simp add: db_ok_def)
qed (simp_all add: post_borrowed_ok put_borrowed_ok repay_ok delete_borrowed_ok
      post_payment_ok put_payment_ok delete_payment_ok)

lemma find_update_first:
  "(\<And>x. Q (f x) = Q x) \<Longrightarrow> find Q (update_first Q f xs) = map_option f (find Q xs)"
  by (induction xs) auto

lemma find_mem: "find P xs = Some x \<Longrightarrow> x \<in> set xs \<and> P x"
  by (induction xs) (auto split: if_splits)


lemma db_ok_owner:
  assumes "db_ok s" "p \<in> set (payments s)" "pay_type p = ''borrowed''"
    "d \<in> set (borrowed_moneys s)" "bm_id d = pay_reference_id p"
  shows "bm_user_id d = pay_user_id p"
  using assms unfolding db_ok_def keys_ok_def
  by (fastforce simp: bm_key_def pay_key_def)



section \<open>The running example, evaluated\<close>

lemmas eval_defs = post_borrowed_def bm_valid_def bm_types_def bm_statuses_def pre_save_def
  too_long_def trim_def is_space_def empty_db_def reply_def reply_field_def
  isValidObjectId_def is_hex_def to_oid_def hex_val_def
  new_payment_def payment_valid_def payment_types_def payment_methods_def falsy_str_def
  post_payment_def save_payment_def repay_def record_repayment_def put_borrowed_def
  bm_update_valid_def bm_apply_update_def
  put_payment_def delete_payment_def recompute_repaid_def borrowed_payments_of_def aggregate_total_def
  total_or_zero_def pay_update_valid_def pay_apply_update_def delete_borrowed_def
  truthy_amount_def num_of_def cast_number_def js_plus_def math_min_def js_le_def js_gt_def
  js_ge_def digits_runtime_def
  id1_def id2_def asha_def repay_of_def pay_of_def asha_owing_def asha_record_def repayment_def

lemma db_asha_eq:
  "db_asha = empty_db\<lparr>borrowed_moneys := [asha_record 1000 0 ''pending''], next_id := 2\<rparr>"
  by (simp add: db_asha_def eval_defs)

lemma db_asha_400_eq:
  "db_asha_400 = empty_db\<lparr>borrowed_moneys := [asha_record 1000 400 ''partial''],
       payments := [repayment 2 400 5], next_id := 3\<rparr>"
  by (simp add: db_asha_400_def db_asha_eq eval_defs)

lemma db_asha_500_eq:
  "db_asha_500 = empty_db\<lparr>borrowed_moneys := [asha_record 1000 500 ''partial''],
       payments := [repayment 2 400 5, repayment 3 100 6], next_id := 4\<rparr>"
  by (simp add: db_asha_500_def db_asha_400_eq eval_defs)

lemma reachable_db_asha: "reachable db_asha"
  unfolding db_asha_def by (rule by_post_borrowed, rule start) (simp_all add: empty_db_def)

lemma reachable_db_asha_400: "reachable db_asha_400"
  unfolding db_asha_400_def by (rule by_repay, rule reachable_db_asha)

lemma reachable_db_asha_500: "reachable db_asha_500"
  unfolding db_asha_500_def by (rule by_repay, rule reachable_db_asha_400)

section \<open>The save hook and the repayment of a record\<close>

text \<open>
  Where the save hook runs, the record leaves it with its repaid amount inside
  \<open>[0, amount]\<close> and with the status of the table.
\<close>

lemma pre_save_derives:
  assumes "0 \<le> bm_repaid_amount d" and "0 < bm_amount d"
  shows "0 \<le> bm_repaid_amount (pre_save d) \<and> bm_repaid_amount (pre_save d) \<le> bm_amount (pre_save d)
     \<and> spec_status (bm_repaid_amount (pre_save d)) (bm_amount (pre_save d))
         = Some (bm_status (pre_save d))"
  using assms by (auto simp: pre_save_def spec_status_def Let_def)

text \<open>
  The repay route writes the status itself: after a successful repayment of a positive
  number, on a record whose repaid amount is not negative, the stored status is the one
  of the table for the stored amounts.
\<close>

lemma record_repayment_status:
  assumes "res_status (fst (record_repayment rt s u r d (Number a) dt b)) = 201"
    and "find (\<lambda>x. bm_id x = r) (borrowed_moneys s) = Some d"
    and "0 \<le> bm_repaid_amount d" and "0 < a"
  shows "map_option (\<lambda>x. (bm_amount x, bm_repaid_amount x, Some (bm_status x)))
           (find (\<lambda>x. bm_id x = r) (borrowed_moneys (snd (record_repayment rt s u r d (Number a) dt b))))
         = Some (bm_amount d, bm_repaid_amount d + a,
                 spec_status (bm_repaid_amount d + a) (bm_amount d))"
  using assms
  by (auto simp: record_repayment_def Let_def reply_def find_update_first spec_status_def
        js_plus_def num_of_def js_ge_def
      split: option.splits if_splits)

text \<open>
  C1. After every operation that writes a borrowed record, its status is the one the
  table gives for its repaid amount and its amount. The code does not keep this:
  \<open>POST /api/payments\<close> writes \<open>repaid_amount\<close> alone. On a fresh record of 1000, a
  payment of 400 is accepted and leaves the record at repaid 400 with the status
  \<open>pending\<close>, where the table says \<open>partial\<close>.
\<close>

theorem payment_create_leaves_status_stale:
  "borrowed_moneys db_asha = [asha_record 1000 0 ''pending'']
   \<and> res_status (fst (post_payment digits_runtime 0 db_asha 7 (pay_of ''borrowed'' id1 400))) = 201
   \<and> borrowed_moneys (snd (post_payment digits_runtime 0 db_asha 7 (pay_of ''borrowed'' id1 400)))
       = [asha_record 1000 400 ''pending'']
   \<and> spec_status 400 1000 = Some ''partial''"
  by (simp add: db_asha_eq spec_status_def eval_defs)

text \<open>
  C2. After every operation that writes a borrowed record, including a change of the
  principal through \<open>PUT /api/borrowed-money/:id\<close>, \<open>0 \<le> repaid_amount \<le> amount\<close>. The
  code does not keep this: the update bypasses the save hook. With 400 repaid of 1000,
  lowering the principal to 300 is accepted and leaves repaid 400 above the amount 300.
\<close>

theorem principal_update_breaks_bound:
  "borrowed_moneys db_asha_400 = [asha_record 1000 400 ''partial'']
   \<and> res_status (fst (put_borrowed db_asha_400 7 id1 (asha_owing 300))) = 200
   \<and> borrowed_moneys (snd (put_borrowed db_asha_400 7 id1 (asha_owing 300)))
       = [asha_record 300 400 ''partial'']
   \<and> bm_amount (asha_record 300 400 ''partial'') < bm_repaid_amount (asha_record 300 400 ''partial'')"
  by (simp add: db_asha_400_eq eval_defs)

text \<open>
  C3, as stated: whenever the requested amount exceeds the remaining amount, the
  response reports the remaining amount. A request without a payment date is rejected
  by the earlier check, and that response carries no remaining amount: with 600
  remaining, a repayment of 700 without a date gets 400 \<open>Payment date is required\<close>.
\<close>

theorem repay_without_date_reports_no_remaining:
  "borrowed_moneys db_asha_400 = [asha_record 1000 400 ''partial'']
   \<and> repay digits_runtime db_asha_400 7 id1 (repay_of 700 None)
       = (reply 400 ''Payment date is required'', db_asha_400)
   \<and> res_remaining_amount (reply 400 ''Payment date is required'') = None"
  by (simp add: db_asha_400_eq eval_defs)

text \<open>
  C3, amended. For a repay request on a record of the user whose amount (a number, or a
  string that the runtime reads as the number \<open>a\<close>) exceeds the remaining amount
  \<open>amount - repaid_amount\<close>: the response is 400 and the database is unchanged (no
  payment is created, the record is untouched); and when the request has a positive
  amount and a payment date, the response reports that remaining amount.
\<close>

theorem repay_guard:
  assumes "isValidObjectId rid"
    and "find (\<lambda>d. bm_id d = to_oid rid \<and> bm_user_id d = u) (borrowed_moneys s) = Some d"
    and "rb_amount b = Some v" and "num_of rt (Some v) = Some a"
    and "bm_amount d - bm_repaid_amount d < a"
  shows "res_status (fst (repay rt s u rid b)) = 400 \<and> snd (repay rt s u rid b) = s
     \<and> (truthy_amount v \<and> 0 < a \<and> rb_payment_date b \<noteq> None \<longrightarrow>
          res_remaining_amount (fst (repay rt s u rid b))
            = Some (bm_amount d - bm_repaid_amount d))"
  using assms by (auto simp: repay_def reply_def js_le_def js_gt_def split: option.splits)

theorem repay_guard_witness:
  "res_status (fst (repay digits_runtime db_asha_400 7 id1 (repay_of 700 (Some 9)))) = 400
   \<and> snd (repay digits_runtime db_asha_400 7 id1 (repay_of 700 (Some 9))) = db_asha_400
   \<and> res_remaining_amount (fst (repay digits_runtime db_asha_400 7 id1 (repay_of 700 (Some 9))))
       = Some 600"
proof -
  have 1: "isValidObjectId id1" by (simp add: eval_defs)
  have 2: "find (\<lambda>d. bm_id d = to_oid id1 \<and> bm_user_id d = 7) (borrowed_moneys db_asha_400)
             = Some (asha_record 1000 400 ''partial'')"
    by (simp add: db_asha_400_eq eval_defs)
  have 3: "rb_amount (repay_of 700 (Some 9)) = Some (Number 700)" by (simp add: repay_of_def)
  have 4: "num_of digits_runtime (Some (Number 700)) = Some 700" by (simp add: num_of_def)
  have 5: "bm_amount (asha_record 1000 400 ''partial'')
             - bm_repaid_amount (asha_record 1000 400 ''partial'') < 700"
    by (simp add: asha_record_def)
  from repay_guard[OF 1 2 3 4 5] show ?thesis
    by (simp add: repay_of_def asha_record_def truthy_amount_def)
qed




section \<open>Recomputation from the payments\<close>

lemma total_or_zero_aggregate: "total_or_zero (aggregate_total ps) = sum_list (map pay_amount ps)"
  by (simp add: total_or_zero_def aggregate_total_def)

lemma recompute_repaid_payments [simp]: "payments (recompute_repaid s u p) = payments s"
  by (simp add: recompute_repaid_def Let_def split: option.splits)

lemma recompute_repaid_sum:
  assumes ok: "db_ok s" and ty: "pay_type p = ''borrowed''" and us: "pay_user_id p = u"
    and d: "find (\<lambda>x. bm_id x = pay_reference_id p) (borrowed_moneys s) = Some d"
    and own: "bm_user_id d = u"
  shows "map_option bm_repaid_amount
           (find (\<lambda>x. bm_id x = pay_reference_id p) (borrowed_moneys (recompute_repaid s u p)))
         = Some (min (payments_sum (recompute_repaid s u p) (pay_reference_id p)) (bm_amount d))"
proof -
  let ?r = "pay_reference_id p"
  have dm: "d \<in> set (borrowed_moneys s)" "bm_id d = ?r"
    using find_mem[OF d] by auto
  have "pay_user_id q = u" if "q \<in> set (payments s)" "pay_type q = ''borrowed''"
    "pay_reference_id q = ?r" for q
    using db_ok_owner[OF ok that(1,2) dm(1)] dm(2) that(3) own by simp
  then have "borrowed_payments_of s u ?r
      = filter (\<lambda>q. pay_type q = ''borrowed'' \<and> pay_reference_id q = ?r) (payments s)"
    unfolding borrowed_payments_of_def by (intro filter_cong) auto
  then have tot: "total_or_zero (aggregate_total (borrowed_payments_of s u ?r)) = payments_sum s ?r"
    by (simp add: total_or_zero_aggregate payments_sum_def)
  have ps: "payments_sum (recompute_repaid s u p) ?r = payments_sum s ?r"
    by (simp add: payments_sum_def)
  show ?thesis
    unfolding ps using ty d tot
    by (simp add: recompute_repaid_def Let_def find_update_first)
qed

text \<open>
  C5. After a successful update or delete of a payment of type \<open>borrowed\<close> whose record
  exists, the record's repaid amount is \<open>min S principal\<close>, where \<open>S\<close> is the sum of
  the amounts of the payments of type \<open>borrowed\<close> that reference the record after the
  operation (0 when there are none).
\<close>

theorem recomputed_repaid_amount:
  assumes "reachable s"
  shows "(res_status (fst (put_payment s u pid pu)) = 200
            \<and> find (\<lambda>p. pay_id p = to_oid pid \<and> pay_user_id p = u) (payments s) = Some p
            \<and> pay_type p = ''borrowed''
            \<and> find (\<lambda>x. bm_id x = pay_reference_id p) (borrowed_moneys s) = Some d
          \<longrightarrow> map_option bm_repaid_amount
                (find (\<lambda>x. bm_id x = pay_reference_id p) (borrowed_moneys (snd (put_payment s u pid pu))))
              = Some (min (payments_sum (snd (put_payment s u pid pu)) (pay_reference_id p))
                          (bm_amount d)))
       \<and> (res_status (fst (delete_payment s u pid)) = 200
            \<and> find (\<lambda>p. pay_id p = to_oid pid \<and> pay_user_id p = u) (payments s) = Some p'
            \<and> pay_type p' = ''borrowed''
            \<and> find (\<lambda>x. bm_id x = pay_reference_id p') (borrowed_moneys s) = Some d'
          \<longrightarrow> map_option bm_repaid_amount
                (find (\<lambda>x. bm_id x = pay_reference_id p') (borrowed_moneys (snd (delete_payment s u pid))))
              = Some (min (payments_sum (snd (delete_payment s u pid)) (pay_reference_id p'))
                          (bm_amount d')))"
proof (intro conjI impI)
  have ok: "db_ok s" by (rule reachable_db_ok[OF assms])
  {
    assume h: "res_status (fst (put_payment s u pid pu)) = 200
            \<and> find (\<lambda>p. pay_id p = to_oid pid \<and> pay_user_id p = u) (payments s) = Some p
            \<and> pay_type p = ''borrowed''
            \<and> find (\<lambda>x. bm_id x = pay_reference_id p) (borrowed_moneys s) = Some d"
    let ?q = "\<lambda>p. pay_id p = to_oid pid \<and> pay_user_id p = u"
    let ?s1 = "s\<lparr>payments := update_first ?q (pay_apply_update pu) (payments s)\<rparr>"
    let ?p1 = "pay_apply_update pu p"
    have eq: "snd (put_payment s u pid pu) = recompute_repaid ?s1 u ?p1"
      using h by (auto simp: put_payment_def Let_def reply_def split: if_splits)
    have pm: "p \<in> set (payments s)" "pay_user_id p = u" using h find_mem[of ?q "payments s" p] by auto
    have dm: "d \<in> set (borrowed_moneys s)" "bm_id d = pay_reference_id p"
      using h find_mem[of "\<lambda>x. bm_id x = pay_reference_id p" "borrowed_moneys s" d] by auto
    have own: "bm_user_id d = u" using db_ok_owner[OF ok pm(1) _ dm] h pm(2) by simp
    have ok1: "db_ok ?s1" using ok by (intro db_ok_update_payments) simp_all
    have keys: "pay_type ?p1 = ''borrowed''" "pay_user_id ?p1 = u" "pay_reference_id ?p1 = pay_reference_id p"
      using h pm by (simp_all add: pay_apply_update_def)
    show "map_option bm_repaid_amount
                (find (\<lambda>x. bm_id x = pay_reference_id p) (borrowed_moneys (snd (put_payment s u pid pu))))
              = Some (min (payments_sum (snd (put_payment s u pid pu)) (pay_reference_id p))
                          (bm_amount d))"
      unfolding eq
      using recompute_repaid_sum[of ?s1 ?p1 u d] ok1 keys h own by simp
  }
  {
    assume h: "res_status (fst (delete_payment s u pid)) = 200
            \<and> find (\<lambda>p. pay_id p = to_oid pid \<and> pay_user_id p = u) (payments s) = Some p'
            \<and> pay_type p' = ''borrowed''
            \<and> find (\<lambda>x. bm_id x = pay_reference_id p') (borrowed_moneys s) = Some d'"
    let ?q = "\<lambda>p. pay_id p = to_oid pid \<and> pay_user_id p = u"
    let ?s1 = "s\<lparr>payments := delete_first (\<lambda>p. pay_id p = to_oid pid) (payments s)\<rparr>"
    have eq: "snd (delete_payment s u pid) = recompute_repaid ?s1 u p'"
      using h by (auto simp: delete_payment_def Let_def reply_def split: if_splits)
    have pm: "p' \<in> set (payments s)" "pay_user_id p' = u" using h find_mem[of ?q "payments s" p'] by auto
    have dm: "d' \<in> set (borrowed_moneys s)" "bm_id d' = pay_reference_id p'"
      using h find_mem[of "\<lambda>x. bm_id x = pay_reference_id p'" "borrowed_moneys s" d'] by auto
    have own: "bm_user_id d' = u" using db_ok_owner[OF ok pm(1) _ dm] h pm(2) by simp
    have ok1: "db_ok ?s1" using ok by (rule db_ok_delete_payment)
    show "map_option bm_repaid_amount
                (find (\<lambda>x. bm_id x = pay_reference_id p') (borrowed_moneys (snd (delete_payment s u pid))))
              = Some (min (payments_sum (snd (delete_payment s u pid)) (pay_reference_id p'))
                          (bm_amount d'))"
      unfolding eq
      using recompute_repaid_sum[of ?s1 p' u d'] ok1 h own pm by simp
  }
qed

theorem recomputed_repaid_amount_witness:
  "map_option bm_repaid_amount (find (\<lambda>x. bm_id x = 1)
       (borrowed_moneys (snd (put_payment db_asha_500 7 id2
          \<lparr>pu_amount = Some 250, pu_payment_date = None, pu_note = None, pu_payment_method = None\<rparr>))))
     = Some 350
   \<and> map_option bm_repaid_amount (find (\<lambda>x. bm_id x = 1)
       (borrowed_moneys (snd (delete_payment db_asha_500 7 id2)))) = Some 100"
proof -
  let ?pu = "\<lparr>pu_amount = Some 250, pu_payment_date = None, pu_note = None, pu_payment_method = None\<rparr>"
  have p: "find (\<lambda>p. pay_id p = to_oid id2 \<and> pay_user_id p = 7) (payments db_asha_500)
             = Some (repayment 2 400 5)"
    by (simp add: db_asha_500_eq eval_defs)
  have t: "pay_type (repayment 2 400 5) = ''borrowed''" "pay_reference_id (repayment 2 400 5) = 1"
    by (simp_all add: repayment_def)
  have d: "find (\<lambda>x. bm_id x = pay_reference_id (repayment 2 400 5)) (borrowed_moneys db_asha_500)
             = Some (asha_record 1000 500 ''partial'')"
    by (simp add: db_asha_500_eq eval_defs)
  have 1: "res_status (fst (put_payment db_asha_500 7 id2 ?pu)) = 200"
    by (simp add: db_asha_500_eq eval_defs)
  have 2: "res_status (fst (delete_payment db_asha_500 7 id2)) = 200"
    by (simp add: db_asha_500_eq eval_defs)
  have 3: "payments_sum (snd (put_payment db_asha_500 7 id2 ?pu)) 1 = 350"
    by (simp add: db_asha_500_eq payments_sum_def eval_defs)
  have 4: "payments_sum (snd (delete_payment db_asha_500 7 id2)) 1 = 100"
    by (simp add: db_asha_500_eq payments_sum_def eval_defs)
  from recomputed_repaid_amount[OF reachable_db_asha_500, of 7 id2 ?pu "repayment 2 400 5"
      "asha_record 1000 500 ''partial''" "repayment 2 400 5" "asha_record 1000 500 ''partial''"]
    p t d 1 2 3 4
  show ?thesis by (simp add: asha_record_def)
qed

text \<open>
  C6. Deleting the last payment of a record leaves it with repaid amount 0 and status
  \<open>pending\<close>. The code resets the repaid amount but does not touch the status: after a
  repayment of 400 (status \<open>partial\<close>) the only payment is deleted, and the record has
  repaid amount 0 with the status still \<open>partial\<close>.
\<close>

theorem delete_last_payment_keeps_status:
  "payments db_asha_400 = [repayment 2 400 5]
   \<and> res_status (fst (delete_payment db_asha_400 7 id2)) = 200
   \<and> payments (snd (delete_payment db_asha_400 7 id2)) = []
   \<and> borrowed_moneys (snd (delete_payment db_asha_400 7 id2)) = [asha_record 1000 0 ''partial'']"
  by (simp add: db_asha_400_eq eval_defs)

section \<open>Payment totals\<close>

lemma foldl_add_group_borrowed:
  "borrowed (foldl add_group tot (map (\<lambda>t. \<lparr>g_id = t, g_total_amount = f t, g_count = c t\<rparr>) ts))
     = (if ''borrowed'' \<in> set ts then \<lparr>tt_amount = f ''borrowed'', tt_count = c ''borrowed''\<rparr>
        else borrowed tot)"
  by (induction ts arbitrary: tot) (auto simp: add_group_def)

lemma foldl_add_group_credit_card:
  "credit_card (foldl add_group tot (map (\<lambda>t. \<lparr>g_id = t, g_total_amount = f t, g_count = c t\<rparr>) ts))
     = (if ''credit_card'' \<in> set ts then \<lparr>tt_amount = f ''credit_card'', tt_count = c ''credit_card''\<rparr>
        else credit_card tot)"
  by (induction ts arbitrary: tot) (auto simp: add_group_def)

lemma filter_type_empty: "t \<notin> pay_type ` set ps \<Longrightarrow> filter (\<lambda>p. pay_type p = t) ps = []"
  by (induction ps) auto

lemma matching_filter:
  "matching s u sd ed t
     = filter (\<lambda>p. pay_type p = t)
         (filter (\<lambda>p. pay_user_id p = u \<and> date_filter sd ed p) (payments s))"
  by (simp add: matching_def conj_assoc)

lemma totals_of_groups:
  "borrowed (foldl add_group \<lparr>credit_card = \<lparr>tt_amount = 0, tt_count = 0\<rparr>,
                              borrowed = \<lparr>tt_amount = 0, tt_count = 0\<rparr>\<rparr> (group_by_type ps))
     = \<lparr>tt_amount = sum_list (map pay_amount (filter (\<lambda>p. pay_type p = ''borrowed'') ps)),
        tt_count = length (filter (\<lambda>p. pay_type p = ''borrowed'') ps)\<rparr>"
  "credit_card (foldl add_group \<lparr>credit_card = \<lparr>tt_amount = 0, tt_count = 0\<rparr>,
                              borrowed = \<lparr>tt_amount = 0, tt_count = 0\<rparr>\<rparr> (group_by_type ps))
     = \<lparr>tt_amount = sum_list (map pay_amount (filter (\<lambda>p. pay_type p = ''credit_card'') ps)),
        tt_count = length (filter (\<lambda>p. pay_type p = ''credit_card'') ps)\<rparr>"
  by (simp_all add: group_by_type_def foldl_add_group_borrowed foldl_add_group_credit_card
        filter_type_empty)

lemma summary_totals_value:
  "borrowed (snd (summary_totals s u sd ed))
     = \<lparr>tt_amount = sum_list (map pay_amount (matching s u sd ed ''borrowed'')),
        tt_count = length (matching s u sd ed ''borrowed'')\<rparr>"
  "credit_card (snd (summary_totals s u sd ed))
     = \<lparr>tt_amount = sum_list (map pay_amount (matching s u sd ed ''credit_card'')),
        tt_count = length (matching s u sd ed ''credit_card'')\<rparr>"
  by (simp_all only: summary_totals_def Let_def snd_conv totals_of_groups matching_filter)

text \<open>
  C10. For every user and optional date range the totals request answers 200 with a
  total for \<open>credit_card\<close> and one for \<open>borrowed\<close> (the two fields of \<open>totals\<close>), and
  a type without matching payments has exactly amount 0 and count 0.
\<close>

theorem totals_default_to_zero:
  "fst (summary_totals s u sd ed) = 200
   \<and> (matching s u sd ed ''credit_card'' = [] \<longrightarrow>
        credit_card (snd (summary_totals s u sd ed)) = \<lparr>tt_amount = 0, tt_count = 0\<rparr>)
   \<and> (matching s u sd ed ''borrowed'' = [] \<longrightarrow>
        borrowed (snd (summary_totals s u sd ed)) = \<lparr>tt_amount = 0, tt_count = 0\<rparr>)"
  by (simp add: summary_totals_value) (simp add: summary_totals_def Let_def)

theorem totals_default_to_zero_witness:
  "matching db_asha_500 7 None (Some 100) ''credit_card'' = []
   \<and> summary_totals db_asha_500 7 None (Some 100)
       = (200, \<lparr>credit_card = \<lparr>tt_amount = 0, tt_count = 0\<rparr>,
                borrowed = \<lparr>tt_amount = 500, tt_count = 2\<rparr>\<rparr>)
   \<and> matching db_asha_500 8 None None ''borrowed'' = []
   \<and> borrowed (snd (summary_totals db_asha_500 8 None None)) = \<lparr>tt_amount = 0, tt_count = 0\<rparr>"
proof -
  have 1: "matching db_asha_500 7 None (Some 100) ''credit_card'' = []"
    by (simp add: matching_def db_asha_500_eq date_filter_def eval_defs)
  have 2: "matching db_asha_500 8 None None ''borrowed'' = []"
    by (simp add: matching_def db_asha_500_eq date_filter_def eval_defs)
  have 3: "borrowed (snd (summary_totals db_asha_500 7 None (Some 100))) = \<lparr>tt_amount = 500, tt_count = 2\<rparr>"
    by (simp add: summary_totals_value matching_def db_asha_500_eq date_filter_def eval_defs)
  from totals_default_to_zero[of db_asha_500 7 None "Some 100"]
    totals_default_to_zero[of db_asha_500 8 None None] 1 2 3
  show ?thesis by (auto intro: totals.equality prod_eqI)
qed

section \<open>Expenses and their references\<close>

lemma plain_literal: "plain x \<Longrightarrow> literal x"
  by (induction x) (simp_all add: literal_def plain_def)

lemma literal_engine_ok: "case_insensitive_on_plain literal_engine"
  by (simp add: case_insensitive_on_plain_def literal_engine_def plain_literal)

lemma dropWhile_none: "\<forall>c\<in>set x. \<not> P c \<Longrightarrow> dropWhile P x = x"
  by (cases x) auto

lemma space_not_plain:
  "is_space c \<Longrightarrow> c \<notin> set ''ABCDEFGHIJKLMNOPQRSTUVWXYZabcdefghijklmnopqrstuvwxyz0123456789''"
  unfolding is_space_def by (simp, elim disjE) simp_all

lemma plain_no_space: "plain x \<Longrightarrow> c \<in> set x \<Longrightarrow> \<not> is_space c"
  unfolding plain_def list_all_iff using space_not_plain by blast

lemma trim_plain: "plain x \<Longrightarrow> trim x = x"
  using plain_no_space[of x] by (simp add: trim_def dropWhile_none)

lemmas cat_eval_defs = post_category_def literal_engine_def literal_def plain_def
  same_ignoring_case_def upper_def
  template_name_def or_default_def named_def food_def default_icon_def
  post_expense_def save_expense_def expense_valid_def expense_pre_save_def payment_modes_def
  recurring_frequencies_def truthy_id_def blank_id_def valid_id_def id_of_def clean_id_def cast_ref_def
  put_expense_def check_category_def check_credit_card_def check_borrowed_def clean_update_id_def
  expense_update_valid_def set_ref_def exp_apply_update_def spend_def switch_mode_def lunch_def

lemma db_food_eq: "db_food = empty_db\<lparr>categories := [food 1 7], next_id := 2\<rparr>"
  by (simp add: db_food_def cat_eval_defs eval_defs)

lemma db_lunch_eq: "db_lunch = empty_db\<lparr>categories := [food 1 7], expenses := [lunch ''cash''], next_id := 3\<rparr>"
  by (simp add: db_lunch_def db_food_eq cat_eval_defs eval_defs)

text \<open>
  C7. \<open>POST /api/expenses\<close> with payment mode \<open>credit_card\<close> and no credit card id
  is answered with 400 and creates no expense; likewise with payment mode \<open>borrowed\<close>
  and no borrowed id. Whatever else the request holds, every check on the way answers
  400 and leaves the database unchanged.
\<close>

theorem create_requires_reference:
  "(eb_payment_mode b = Some ''credit_card'' \<and> \<not> truthy_id (eb_credit_card_id b) \<longrightarrow>
      res_status (fst (post_expense now s u b)) = 400 \<and> snd (post_expense now s u b) = s)
   \<and> (eb_payment_mode b = Some ''borrowed'' \<and> \<not> truthy_id (eb_borrowed_id b) \<longrightarrow>
      res_status (fst (post_expense now s u b)) = 400 \<and> snd (post_expense now s u b) = s)"
  by (auto simp: post_expense_def reply_def reply_field_def split: option.splits)

theorem create_requires_reference_witness:
  "post_expense 0 db_food 7 (spend ''credit_card'')
     = (reply_field 400 ''Credit card is required for credit card payment'' ''credit_card_id'', db_food)
   \<and> post_expense 0 db_food 7 (spend ''borrowed'')
     = (reply_field 400 ''Borrowed money reference is required'' ''borrowed_id'', db_food)"
proof -
  have 1: "eb_payment_mode (spend ''credit_card'') = Some ''credit_card''
           \<and> \<not> truthy_id (eb_credit_card_id (spend ''credit_card''))"
    by (simp add: spend_def truthy_id_def)
  have 2: "eb_payment_mode (spend ''borrowed'') = Some ''borrowed''
           \<and> \<not> truthy_id (eb_borrowed_id (spend ''borrowed''))"
    by (simp add: spend_def truthy_id_def)
  have 3: "fst (post_expense 0 db_food 7 (spend ''credit_card''))
             = reply_field 400 ''Credit card is required for credit card payment'' ''credit_card_id''"
    by (simp add: db_food_eq cat_eval_defs eval_defs)
  have 4: "fst (post_expense 0 db_food 7 (spend ''borrowed''))
             = reply_field 400 ''Borrowed money reference is required'' ''borrowed_id''"
    by (simp add: db_food_eq cat_eval_defs eval_defs)
  from create_requires_reference[of "spend ''credit_card''" 0 db_food 7]
    create_requires_reference[of "spend ''borrowed''" 0 db_food 7] 1 2 3 4
  show ?thesis by (simp add: prod_eq_iff)
qed

lemma find_conj: "find P xs = Some x \<Longrightarrow> Q x \<Longrightarrow> find (\<lambda>y. P y \<and> Q y) xs = Some x"
  by (induction xs) (auto split: if_splits)

lemma set_ref_falsy:
  "\<not> truthy_id v \<Longrightarrow> set_ref (clean_update_id v) old = (if v = Null then None else old)"
  by (cases v) (simp_all add: truthy_id_def clean_update_id_def set_ref_def trim_def)
lemma put_expense_without_reference:
  assumes "isValidObjectId eid"
    and "find (\<lambda>e. exp_id e = to_oid eid) (expenses s) = Some e0" and "exp_user_id e0 = u"
    and "check_category s u b = None" and "expense_update_valid b"
  shows "(eb_payment_mode b = Some ''credit_card'' \<and> \<not> truthy_id (eb_credit_card_id b) \<longrightarrow>
            check_credit_card s u b = None
            \<and> res_status (fst (put_expense s u eid b)) = 200
            \<and> map_option (\<lambda>e. (exp_payment_mode e, exp_credit_card_id e))
                 (find (\<lambda>e. exp_id e = to_oid eid) (expenses (snd (put_expense s u eid b))))
               = Some (''credit_card'',
                       if eb_credit_card_id b = Null then None else exp_credit_card_id e0))
       \<and> (eb_payment_mode b = Some ''borrowed'' \<and> \<not> truthy_id (eb_borrowed_id b) \<longrightarrow>
            check_borrowed s u b = None
            \<and> res_status (fst (put_expense s u eid b)) = 200
            \<and> map_option (\<lambda>e. (exp_payment_mode e, exp_borrowed_id e))
                 (find (\<lambda>e. exp_id e = to_oid eid) (expenses (snd (put_expense s u eid b))))
               = Some (''borrowed'',
                       if eb_borrowed_id b = Null then None else exp_borrowed_id e0))"
proof -
  have f: "find (\<lambda>e. exp_id e = to_oid eid \<and> exp_user_id e = u) (expenses s) = Some e0"
    using find_conj[OF assms(2), of "\<lambda>e. exp_user_id e = u"] assms(3) by simp
  have upd: "find (\<lambda>e. exp_id e = to_oid eid)
               (update_first (\<lambda>e. exp_id e = to_oid eid) (exp_apply_update b) (expenses s))
             = Some (exp_apply_update b e0)"
    using assms(2) by (simp add: find_update_first exp_apply_update_def)
  have ok: "isValidObjectId eid" "check_category s u b = None" "expense_update_valid b"
    using assms by simp_all
  show ?thesis
  proof (intro conjI impI)
    assume h: "eb_payment_mode b = Some ''credit_card'' \<and> \<not> truthy_id (eb_credit_card_id b)"
    then show cc: "check_credit_card s u b = None" by (simp add: check_credit_card_def)
    have bo: "check_borrowed s u b = None" using h by (simp add: check_borrowed_def)
    have eq: "put_expense s u eid b
        = (reply 200 ''Expense updated successfully'',
           s\<lparr>expenses := update_first (\<lambda>e. exp_id e = to_oid eid) (exp_apply_update b) (expenses s)\<rparr>)"
      using ok f cc bo by (simp add: put_expense_def)
    show "res_status (fst (put_expense s u eid b)) = 200" by (simp add: eq reply_def)
    show "map_option (\<lambda>e. (exp_payment_mode e, exp_credit_card_id e))
            (find (\<lambda>e. exp_id e = to_oid eid) (expenses (snd (put_expense s u eid b))))
          = Some (''credit_card'', if eb_credit_card_id b = Null then None else exp_credit_card_id e0)"
      using h by (simp add: eq upd exp_apply_update_def set_ref_falsy)
  next
    assume h: "eb_payment_mode b = Some ''borrowed'' \<and> \<not> truthy_id (eb_borrowed_id b)"
    then show bo: "check_borrowed s u b = None" by (simp add: check_borrowed_def)
    have cc: "check_credit_card s u b = None" using h by (simp add: check_credit_card_def)
    have eq: "put_expense s u eid b
        = (reply 200 ''Expense updated successfully'',
           s\<lparr>expenses := update_first (\<lambda>e. exp_id e = to_oid eid) (exp_apply_update b) (expenses s)\<rparr>)"
      using ok f cc bo by (simp add: put_expense_def)
    show "res_status (fst (put_expense s u eid b)) = 200" by (simp add: eq reply_def)
    show "map_option (\<lambda>e. (exp_payment_mode e, exp_borrowed_id e))
            (find (\<lambda>e. exp_id e = to_oid eid) (expenses (snd (put_expense s u eid b))))
          = Some (''borrowed'', if eb_borrowed_id b = Null then None else exp_borrowed_id e0)"
      using h by (simp add: eq upd exp_apply_update_def set_ref_falsy)
  qed
qed

text \<open>
  C8. \<open>PUT /api/expenses/:id\<close> with a body that sets the payment mode to
  \<open>credit_card\<close> and carries no credit card id: the credit-card check does not run,
  and when the expense exists for the user and the rest of the body is accepted
  (category check, validators), the update succeeds and stores the mode \<open>credit_card\<close>
  with the credit-card reference \<open>null\<close> if the body says \<open>null\<close> and unchanged
  otherwise, so \<open>null\<close> for an expense that had none. Likewise for \<open>borrowed\<close>.
\<close>

theorem update_skips_reference_check:
  "(eb_payment_mode b = Some ''credit_card'' \<and> \<not> truthy_id (eb_credit_card_id b) \<longrightarrow>
      check_credit_card s u b = None
      \<and> (isValidObjectId eid \<and> find (\<lambda>e. exp_id e = to_oid eid) (expenses s) = Some e0
          \<and> exp_user_id e0 = u \<and> check_category s u b = None \<and> expense_update_valid b \<longrightarrow>
            res_status (fst (put_expense s u eid b)) = 200
            \<and> map_option (\<lambda>e. (exp_payment_mode e, exp_credit_card_id e))
                 (find (\<lambda>e. exp_id e = to_oid eid) (expenses (snd (put_expense s u eid b))))
               = Some (''credit_card'',
                       if eb_credit_card_id b = Null then None else exp_credit_card_id e0)))
   \<and> (eb_payment_mode b = Some ''borrowed'' \<and> \<not> truthy_id (eb_borrowed_id b) \<longrightarrow>
      check_borrowed s u b = None
      \<and> (isValidObjectId eid \<and> find (\<lambda>e. exp_id e = to_oid eid) (expenses s) = Some e0
          \<and> exp_user_id e0 = u \<and> check_category s u b = None \<and> expense_update_valid b \<longrightarrow>
            res_status (fst (put_expense s u eid b)) = 200
            \<and> map_option (\<lambda>e. (exp_payment_mode e, exp_borrowed_id e))
                 (find (\<lambda>e. exp_id e = to_oid eid) (expenses (snd (put_expense s u eid b))))
               = Some (''borrowed'',
                       if eb_borrowed_id b = Null then None else exp_borrowed_id e0)))"
proof -
  have cc: "check_credit_card s u b = None"
    if "eb_payment_mode b = Some ''credit_card'' \<and> \<not> truthy_id (eb_credit_card_id b)"
    using that by (simp add: check_credit_card_def)
  have bo: "check_borrowed s u b = None"
    if "eb_payment_mode b = Some ''borrowed'' \<and> \<not> truthy_id (eb_borrowed_id b)"
    using that by (simp add: check_borrowed_def)
  show ?thesis
    using cc bo put_expense_without_reference[of eid s e0 u b] by blast
qed

theorem update_skips_reference_check_witness:
  "check_credit_card db_lunch 7 (switch_mode ''credit_card'') = None
   \<and> res_status (fst (put_expense db_lunch 7 id2 (switch_mode ''credit_card''))) = 200
   \<and> expenses (snd (put_expense db_lunch 7 id2 (switch_mode ''credit_card'')))
       = [lunch ''credit_card'']
   \<and> exp_credit_card_id (lunch ''credit_card'') = None
   \<and> check_borrowed db_lunch 7 (switch_mode ''borrowed'') = None
   \<and> res_status (fst (put_expense db_lunch 7 id2 (switch_mode ''borrowed''))) = 200
   \<and> expenses (snd (put_expense db_lunch 7 id2 (switch_mode ''borrowed''))) = [lunch ''borrowed'']
   \<and> exp_borrowed_id (lunch ''borrowed'') = None"
proof -
  have 1: "isValidObjectId id2" by (simp add: eval_defs)
  have 2: "find (\<lambda>e. exp_id e = to_oid id2) (expenses db_lunch) = Some (lunch ''cash'')"
    by (simp add: db_lunch_eq lunch_def eval_defs)
  have 3: "exp_user_id (lunch ''cash'') = 7" by (simp add: lunch_def)
  have 4: "check_category db_lunch 7 (switch_mode m) = None" for m
    by (simp add: check_category_def switch_mode_def truthy_id_def)
  have 5: "expense_update_valid (switch_mode ''credit_card'')"
    "expense_update_valid (switch_mode ''borrowed'')"
    by (simp_all add: expense_update_valid_def switch_mode_def payment_modes_def
          clean_update_id_def cast_ref_def too_long_def)
  have 6: "eb_payment_mode (switch_mode m) = Some m" "\<not> truthy_id (eb_credit_card_id (switch_mode m))"
    "\<not> truthy_id (eb_borrowed_id (switch_mode m))" for m
    by (simp_all add: switch_mode_def truthy_id_def)
  have 7: "expenses (snd (put_expense db_lunch 7 id2 (switch_mode ''credit_card'')))
             = [lunch ''credit_card'']"
    using 1 2 3 4 5
    by (simp add: put_expense_def check_credit_card_def check_borrowed_def 6 find_conj)
       (simp add: db_lunch_eq lunch_def exp_apply_update_def switch_mode_def set_ref_def
          clean_update_id_def eval_defs)
  have 8: "expenses (snd (put_expense db_lunch 7 id2 (switch_mode ''borrowed'')))
             = [lunch ''borrowed'']"
    using 1 2 3 4 5
    by (simp add: put_expense_def check_credit_card_def check_borrowed_def 6 find_conj)
       (simp add: db_lunch_eq lunch_def exp_apply_update_def switch_mode_def set_ref_def
          clean_update_id_def eval_defs)
  from update_skips_reference_check[of "switch_mode ''credit_card''" db_lunch 7 id2 "lunch ''cash''"]
    update_skips_reference_check[of "switch_mode ''borrowed''" db_lunch 7 id2 "lunch ''cash''"]
    1 2 3 4 5
  show ?thesis
    by (simp add: 6 7 8) (simp add: lunch_def)
qed

section \<open>Category names\<close>

lemma find_exists: "find P xs \<noteq> None \<longleftrightarrow> (\<exists>x\<in>set xs. P x)"
  by (induction xs) auto

text \<open>
  Where the check works: with an engine that is case-insensitive on plain names and a
  plain requested name, a category of the user with a plain name equal up to case makes
  the request fail with 400 and nothing is created; and when all the user's categories
  have plain names and none is equal up to case, the category is created, whatever
  other users have.
\<close>

lemma plain_names_unique_ignoring_case:
  assumes rx: "case_insensitive_on_plain rx" and pl: "plain name" and nm: "cb_name b = Some name"
  shows "((\<exists>c\<in>set (categories s). cat_user_id c = u \<and> plain (cat_name c)
              \<and> same_ignoring_case (cat_name c) name)
          \<longrightarrow> res_status (fst (post_category rx s u b)) = 400 \<and> snd (post_category rx s u b) = s)
       \<and> (name \<noteq> [] \<and> length name \<le> 50
            \<and> (\<forall>c\<in>set (categories s). cat_user_id c = u \<longrightarrow>
                  plain (cat_name c) \<and> \<not> same_ignoring_case (cat_name c) name)
          \<longrightarrow> res_status (fst (post_category rx s u b)) = 201
              \<and> (\<exists>c. categories (snd (post_category rx s u b)) = categories s @ [c]
                    \<and> cat_name c = name \<and> cat_user_id c = u))"
proof -
  obtain m where m: "rx (''^'' @ name @ ''$'') = Some m"
    and mm: "\<And>x. plain x \<Longrightarrow> m x = same_ignoring_case x name"
    using rx pl unfolding case_insensitive_on_plain_def by blast
  have pat: "rx (''^'' @ template_name (cb_name b) @ ''$'') = Some m"
    using m nm by (simp add: template_name_def)
  show ?thesis
  proof (intro conjI impI)
    assume "\<exists>c\<in>set (categories s). cat_user_id c = u \<and> plain (cat_name c)
              \<and> same_ignoring_case (cat_name c) name"
    then have "\<exists>c\<in>set (categories s). m (cat_name c) \<and> cat_user_id c = u"
      using mm by blast
    then have hit: "find (\<lambda>c. m (cat_name c) \<and> cat_user_id c = u) (categories s) \<noteq> None"
      using find_exists[of "\<lambda>c. m (cat_name c) \<and> cat_user_id c = u" "categories s"] by blast
    show "res_status (fst (post_category rx s u b)) = 400"
      using pat hit by (simp add: post_category_def reply_def)
    show "snd (post_category rx s u b) = s"
      using pat hit by (simp add: post_category_def)
  next
    assume h: "name \<noteq> [] \<and> length name \<le> 50
            \<and> (\<forall>c\<in>set (categories s). cat_user_id c = u \<longrightarrow>
                  plain (cat_name c) \<and> \<not> same_ignoring_case (cat_name c) name)"
    then have "\<not> (\<exists>c\<in>set (categories s). m (cat_name c) \<and> cat_user_id c = u)"
      using mm by blast
    then have miss: "find (\<lambda>c. m (cat_name c) \<and> cat_user_id c = u) (categories s) = None"
      using find_exists[of "\<lambda>c. m (cat_name c) \<and> cat_user_id c = u" "categories s"] by blast
    have "\<not> (\<exists>c\<in>set (categories s). cat_name c = name \<and> cat_user_id c = u)"
      using h by (auto simp: same_ignoring_case_def)
    then have nodup: "find (\<lambda>c. cat_name c = name \<and> cat_user_id c = u) (categories s) = None"
      using find_exists[of "\<lambda>c. cat_name c = name \<and> cat_user_id c = u" "categories s"] by blast
    show "res_status (fst (post_category rx s u b)) = 201"
      using pat miss nodup nm h by (simp add: post_category_def reply_def Let_def trim_plain[OF pl])
    show "\<exists>c. categories (snd (post_category rx s u b)) = categories s @ [c]
                    \<and> cat_name c = name \<and> cat_user_id c = u"
      using pat miss nodup nm h by (simp add: post_category_def Let_def trim_plain[OF pl])
  qed
qed


text \<open>
  C9. Category creation enforces unique names per user without regard to case: Food and
  then food for one user is rejected. The code does not keep this for a name sent with
  blanks around it: the lookup matches the raw name, while the schema trims the name it
  stores. After Food, user 7 sends \<open>food\<close> and is rejected, then sends \<open>food\<close> with
  a blank on either side: the pattern does not match Food, the request is answered 201,
  and the user holds both Food and food.
\<close>

theorem padded_name_duplicates_category:
  "categories db_food = [food 1 7]
   \<and> post_category literal_engine db_food 7 (named ''food'')
       = (reply 400 ''Category with this name already exists'', db_food)
   \<and> res_status (fst (post_category literal_engine db_food 7 (named '' food ''))) = 201
   \<and> categories (snd (post_category literal_engine db_food 7 (named '' food '')))
       = [food 1 7, (food 2 7)\<lparr>cat_name := ''food''\<rparr>]
   \<and> same_ignoring_case ''Food'' ''food''"
  by (simp add: db_food_eq cat_eval_defs eval_defs)

end
